theory Spec2Isabelle
  imports Complex_Main
begin

section \<open>The single-switch device handler of homebridge-meross\<close>

text \<open>
  A shallow embedding of \<^verbatim>\<open>src/lib/device/switch-single.js\<close>. The handler object is a
  record of its mutable fields; every method takes the record and returns the updated
  record together with the list of effects it had on its collaborators (characteristic
  writes, history entries, log lines, transport sends, accessory updates, timers), in
  program order. The outcome of an awaited transport call is an argument of the method.
\<close>

subsection \<open>Values and numbers\<close>

text \<open>
  A raw reading is a JavaScript number whose value is an integer (an integer that is a
  double), modelled as an \<open>int\<close>. The cache compares and stores it as it is. The numbers
  the program computes from it are IEEE 754 doubles: a finite double is the
  rational it denotes, and the two infinities are values of their own. The two zeros are
  not told apart, and no operation used here yields NaN.
\<close>

datatype js_number = Finite rat | PosInfinity | NegInfinity

text \<open>
  The binary exponent of a positive rational in the range of the doubles: the largest \<open>e\<close>
  between -1021 and 1023 with \<open>2 powi e \<le> x\<close>, and -1022 for anything smaller (the
  subnormal numbers and zero). The search runs downwards from \<open>n - 1022\<close>.
\<close>

fun exponent_from :: "nat \<Rightarrow> rat \<Rightarrow> int" where
  "exponent_from 0 x = - 1022"
| "exponent_from (Suc n) x =
     (if 2 powi (int (Suc n) - 1022) \<le> x then int (Suc n) - 1022 else exponent_from n x)"

definition exponent :: "rat \<Rightarrow> int" where
  "exponent x = exponent_from 2045 \<bar>x\<bar>"

text \<open>The nearest integer, a tie going to the even one.\<close>

definition round_half_even :: "rat \<Rightarrow> int" where
  "round_half_even y =
     (let f = \<lfloor>y\<rfloor>; d = y - of_int f
      in if d < 1 / 2 then f
         else if 1 / 2 < d then f + 1
         else if even f then f else f + 1)"

text \<open>
  The double nearest to a rational (round to nearest, ties to even): a multiple of the
  spacing \<open>2 powi (e - 52)\<close> of the doubles with exponent \<open>e\<close>, a significand of 53 bits,
  and an infinity when the rounded value reaches \<open>2 powi 1024\<close>.
\<close>

definition to_double :: "rat \<Rightarrow> js_number" where
  "to_double x =
     (let q = 2 powi (exponent x - 52);
          r = of_int (round_half_even (x / q)) * q
      in if 2 powi 1024 \<le> r then PosInfinity
         else if r \<le> - (2 powi 1024) then NegInfinity
         else Finite r)"

text \<open>
  \<^verbatim>\<open>x / d\<close> and \<^verbatim>\<open>x * d\<close> for a positive finite constant \<open>d\<close>: the exact result rounded
  to a double, an infinity staying what it is. \<^verbatim>\<open>x > t\<close> for a finite \<open>t\<close>.
\<close>

fun js_divide :: "js_number \<Rightarrow> rat \<Rightarrow> js_number" where
  "js_divide (Finite x) d = to_double (x / d)"
| "js_divide PosInfinity d = PosInfinity"
| "js_divide NegInfinity d = NegInfinity"

fun js_times :: "js_number \<Rightarrow> rat \<Rightarrow> js_number" where
  "js_times (Finite x) d = to_double (x * d)"
| "js_times PosInfinity d = PosInfinity"
| "js_times NegInfinity d = NegInfinity"

fun js_greater :: "js_number \<Rightarrow> rat \<Rightarrow> bool" where
  "js_greater (Finite x) t = (t < x)"
| "js_greater PosInfinity t = True"
| "js_greater NegInfinity t = False"

text \<open>
  \<^verbatim>\<open>Math.round(x)\<close> is the integer nearest to \<open>x\<close> with ties towards plus infinity; it is
  computed exactly, and the result of rounding a double is a double.
\<close>

fun Math_round :: "js_number \<Rightarrow> js_number" where
  "Math_round (Finite x) = Finite (of_int \<lfloor>x + 1 / 2\<rfloor>)"
| "Math_round PosInfinity = PosInfinity"
| "Math_round NegInfinity = NegInfinity"

text \<open>JavaScript truthiness of a field that is \<^verbatim>\<open>undefined\<close>, \<^verbatim>\<open>true\<close> or \<^verbatim>\<open>false\<close>.\<close>

fun truthy :: "bool option \<Rightarrow> bool" where
  "truthy None = False"
| "truthy (Some b) = b"

text \<open>\<^verbatim>\<open>xs && xs[0]\<close> for an optional array of objects.\<close>

fun first_elem :: "'a list option \<Rightarrow> 'a option" where
  "first_elem None = None"
| "first_elem (Some []) = None"
| "first_elem (Some (x # xs)) = Some x"

text \<open>\<^verbatim>\<open>String.prototype.includes\<close>: the argument occurs as a contiguous substring.\<close>

fun starts_with :: "string \<Rightarrow> string \<Rightarrow> bool" where
  "starts_with s [] = True"
| "starts_with [] (c # cs) = False"
| "starts_with (d # ds) (c # cs) = (d = c \<and> starts_with ds cs)"

fun str_includes :: "string \<Rightarrow> string \<Rightarrow> bool" where
  "str_includes [] el = (el = [])"
| "str_includes (d # ds) el = (starts_with (d # ds) el \<or> str_includes ds el)"

text \<open>\<^verbatim>\<open>String.prototype.toUpperCase\<close> on ASCII text.\<close>

definition upper_char :: "char \<Rightarrow> char" where
  "upper_char c =
     (if (97 :: nat) \<le> of_char c \<and> of_char c \<le> (122 :: nat)
      then char_of (of_char c - (32 :: nat)) else c)"

definition toUpperCase :: "string \<Rightarrow> string" where
  "toUpperCase s = map upper_char s"

subsection \<open>The handler's state and its surroundings\<close>

text \<open>
  The fields of \<^verbatim>\<open>this\<close> that the methods write, and the fields of
  \<^verbatim>\<open>this.accessory.context\<close>. A field that starts out \<^verbatim>\<open>undefined\<close> is an option.
  \<open>cachePower\<close> and \<open>cacheVoltage\<close> hold raw readings.
\<close>

record device =
  cacheState :: bool
  cachePower :: "int option"
  cacheVoltage :: "int option"
  cacheInUse :: "bool option"
  isToggleX :: "bool option"
  updateInProgress :: bool
  isOnline :: bool
  ipAddress :: "string option"
  macAddress :: "string option"
  hardware :: "string option"
  firmware :: "string option"

text \<open>
  What the constructor fixes, and two texts whose sources are not part of the file:
  \<open>lang_timeout\<close> is \<^verbatim>\<open>platformLang.timeout\<close>, and \<open>typeError_text\<close> is what
  \<^verbatim>\<open>parseError\<close> returns for the TypeError of reading a property of \<^verbatim>\<open>undefined\<close>.
\<close>

record config =
  enableLogging :: bool
  enableDebugLogging :: bool
  inUsePowerThreshold :: rat
  lang_timeout :: string
  typeError_text :: string

text \<open>
  A telemetry fragment: \<^verbatim>\<open>hasProperty(data, 'onoff')\<close> is \<open>frag_onoff data \<noteq> None\<close>, and
  likewise for the power and voltage readings.
\<close>

record fragment =
  frag_onoff :: "int option"
  frag_power :: "int option"
  frag_voltage :: "int option"

datatype characteristic = On | OutletInUse | CurrentConsumption | Voltage

datatype char_value = BoolVal bool | NumVal js_number

datatype command = ToggleX int int | Toggle int | NoPayload

datatype log_line =
    CurrentState bool
  | CurrentPower js_number
  | CurrentInUse bool
  | CurrentVoltage js_number
  | IncPoll
  | IncMQTT
  | SendFailed string
  | ReqFailed string

datatype effect =
    UpdateCharacteristic characteristic char_value
  | AddEntry nat
  | Log log_line
  | Warn log_line
  | SendUpdate string command
  | UpdateAccessory
  | SetTimeout nat

text \<open>The values written to one characteristic, the history entries and the sends of a run.\<close>

fun writes :: "characteristic \<Rightarrow> effect list \<Rightarrow> char_value list" where
  "writes c [] = []"
| "writes c (UpdateCharacteristic c' v # es) = (if c' = c then v # writes c es else writes c es)"
| "writes c (e # es) = writes c es"

fun entries :: "effect list \<Rightarrow> nat list" where
  "entries [] = []"
| "entries (AddEntry n # es) = n # entries es"
| "entries (e # es) = entries es"

fun sends :: "effect list \<Rightarrow> (string \<times> command) list" where
  "sends [] = []"
| "sends (SendUpdate ns p # es) = (ns, p) # sends es"
| "sends (e # es) = sends es"

fun accessory_updates :: "effect list \<Rightarrow> nat" where
  "accessory_updates [] = 0"
| "accessory_updates (UpdateAccessory # es) = Suc (accessory_updates es)"
| "accessory_updates (e # es) = accessory_updates es"

fun timers :: "effect list \<Rightarrow> nat list" where
  "timers [] = []"
| "timers (SetTimeout d # es) = d # timers es"
| "timers (e # es) = timers es"

subsection \<open>applyUpdate\<close>

text \<open>The three blocks of \<^verbatim>\<open>applyUpdate\<close>, in the order the method runs them.\<close>

definition applyOnoff :: "config \<Rightarrow> fragment \<Rightarrow> device \<Rightarrow> device \<times> effect list" where
  "applyOnoff cfg data s =
     (case frag_onoff data of
        None \<Rightarrow> (s, [])
      | Some v \<Rightarrow>
          let newState = (v = 1) in
          if cacheState s \<noteq> newState
          then (s\<lparr>cacheState := newState\<rparr>,
                [UpdateCharacteristic On (BoolVal newState),
                 AddEntry (if newState then 1 else 0)]
                @ (if enableLogging cfg then [Log (CurrentState newState)] else []))
          else (s, []))"

text \<open>Line 292, \<^verbatim>\<open>Math.round(newPower / 10) / 100\<close>, and line 314.\<close>

definition scaledPower :: "int \<Rightarrow> js_number" where
  "scaledPower newPower = js_divide (Math_round (js_divide (Finite (of_int newPower)) 10)) 100"

definition scaledVoltage :: "int \<Rightarrow> js_number" where
  "scaledVoltage newVoltage =
     js_divide (Math_round (js_times (Finite (of_int newVoltage)) 10)) 100"

definition applyPower :: "config \<Rightarrow> fragment \<Rightarrow> device \<Rightarrow> device \<times> effect list" where
  "applyPower cfg data s =
     (case frag_power data of
        None \<Rightarrow> (s, [])
      | Some newPower \<Rightarrow>
          let changed = (cachePower s \<noteq> Some newPower);
              newInUse =
                (if changed
                 then Some (cacheState s
                            \<and> js_greater (scaledPower newPower) (inUsePowerThreshold cfg))
                 else cacheInUse s);
              s1 = (if changed then s\<lparr>cachePower := Some newPower\<rparr> else s);
              e1 = (if changed
                    then [UpdateCharacteristic CurrentConsumption (NumVal (scaledPower newPower))]
                         @ (if enableDebugLogging cfg
                            then [Log (CurrentPower (scaledPower newPower))] else [])
                    else [])
          in
          if cacheInUse s1 \<noteq> newInUse
          then (s1\<lparr>cacheInUse := newInUse\<rparr>,
                e1 @ [UpdateCharacteristic OutletInUse (BoolVal (truthy newInUse))]
                @ (if enableLogging cfg then [Log (CurrentInUse (truthy newInUse))] else []))
          else (s1, e1))"

definition applyVoltage :: "config \<Rightarrow> fragment \<Rightarrow> device \<Rightarrow> device \<times> effect list" where
  "applyVoltage cfg data s =
     (case frag_voltage data of
        None \<Rightarrow> (s, [])
      | Some newVoltage \<Rightarrow>
          if cacheVoltage s \<noteq> Some newVoltage
          then (s\<lparr>cacheVoltage := Some newVoltage\<rparr>,
                [UpdateCharacteristic Voltage (NumVal (scaledVoltage newVoltage))]
                @ (if enableDebugLogging cfg
                   then [Log (CurrentVoltage (scaledVoltage newVoltage))] else []))
          else (s, []))"

definition applyUpdate :: "config \<Rightarrow> fragment \<Rightarrow> device \<Rightarrow> device \<times> effect list" where
  "applyUpdate cfg data s =
     (let (s1, e1) = applyOnoff cfg data s;
          (s2, e2) = applyPower cfg data s1;
          (s3, e3) = applyVoltage cfg data s2
      in (s3, e1 @ e2 @ e3))"

text \<open>A run of calls, each on the state the previous one left; the effects of each call.\<close>

fun applyUpdates :: "config \<Rightarrow> fragment list \<Rightarrow> device \<Rightarrow> device" where
  "applyUpdates cfg [] s = s"
| "applyUpdates cfg (d # ds) s = applyUpdates cfg ds (fst (applyUpdate cfg d s))"

text \<open>The last reading of a field that a run of fragments carries, if any.\<close>

fun last_given :: "'a option list \<Rightarrow> 'a option" where
  "last_given [] = None"
| "last_given (x # xs) = (case last_given xs of Some y \<Rightarrow> Some y | None \<Rightarrow> x)"

subsection \<open>receiveUpdate\<close>

text \<open>
  The digest of a full-state poll and the payload of a pushed message have the same shape:
  an optional array \<^verbatim>\<open>togglex\<close> and an optional object \<^verbatim>\<open>toggle\<close>.
\<close>

record digest =
  togglex :: "fragment list option"
  toggle :: "fragment option"

definition receiveUpdate :: "config \<Rightarrow> digest option \<Rightarrow> device \<Rightarrow> device \<times> effect list" where
  "receiveUpdate cfg payload s =
     (let e0 = (if enableDebugLogging cfg then [Log IncMQTT] else []) in
      case payload of
        None \<Rightarrow> (s, e0)
      | Some p \<Rightarrow>
          (case first_elem (togglex p) of
             Some f \<Rightarrow> (let (s1, e1) = applyUpdate cfg f s in (s1, e0 @ e1))
           | None \<Rightarrow>
               (case toggle p of
                  Some f \<Rightarrow> (let (s1, e1) = applyUpdate cfg f s in (s1, e0 @ e1))
                | None \<Rightarrow> (s, e0))))"

subsection \<open>requestUpdate\<close>

record hardware_info =
  hw_macAddress :: string
  hw_version :: string

record firmware_info =
  fw_innerIp :: string
  fw_version :: string

record online_info =
  status :: int

record system_info =
  sys_hardware :: "hardware_info option"
  sys_firmware :: "firmware_info option"
  sys_online :: "online_info option"

record all_info =
  all_digest :: "digest option"
  all_system :: "system_info option"

record poll_payload =
  p_all :: "all_info option"

text \<open>
  The errors a task can end with. \<open>TimeoutError\<close> is an instance of the class of that
  name; \<open>TypeError\<close> is the error of reading a property of \<^verbatim>\<open>undefined\<close>; \<open>OtherError t\<close>
  is any other error, \<open>t\<close> being what \<^verbatim>\<open>parseError\<close> returns for it.
\<close>

datatype js_error = TimeoutError | TypeError | OtherError string

text \<open>
  What happens to the send a queued task awaits, as the caller of \<^verbatim>\<open>queue.add\<close> sees it.
  The send is rejected, or it resolves, or the queue's timeout of 10 seconds (lines 59 to
  65) passes first. In the last case \<^verbatim>\<open>queue.add\<close> rejects with a \<open>TimeoutError\<close> and the
  task is \<open>Abandoned\<close>: nothing cancels it, and when its send resolves later the rest of
  the task still runs, on the state the handler has by then. That rest is a function of
  its own for each method (\<open>pollResumed\<close>, \<open>commandResumed\<close>).
\<close>

datatype 'a outcome = Rejected js_error | Resolved 'a | Abandoned

definition eText :: "config \<Rightarrow> js_error \<Rightarrow> string" where
  "eText cfg err =
     (case err of
        TimeoutError \<Rightarrow> lang_timeout cfg
      | TypeError \<Rightarrow> typeError_text cfg
      | OtherError t \<Rightarrow> t)"

text \<open>Lines 181 to 189: the discriminants of the protocol variant and the state fragment.\<close>

definition applyDigest :: "config \<Rightarrow> digest \<Rightarrow> device \<Rightarrow> device \<times> effect list" where
  "applyDigest cfg d s =
     (case first_elem (togglex d) of
        Some f \<Rightarrow> applyUpdate cfg f (s\<lparr>isToggleX := Some True\<rparr>)
      | None \<Rightarrow>
          (case toggle d of
             Some f \<Rightarrow> applyUpdate cfg f (s\<lparr>isToggleX := Some False\<rparr>)
           | None \<Rightarrow> (s, [])))"

text \<open>Lines 195 to 215; the flag returned is \<^verbatim>\<open>needsUpdate\<close>.\<close>

definition applySystem :: "bool \<Rightarrow> system_info \<Rightarrow> device \<Rightarrow> device \<times> bool" where
  "applySystem firstRun sys s =
     (let s1 = (case sys_hardware sys of
                  Some hw \<Rightarrow>
                    if firstRun
                    then s\<lparr>macAddress := Some (toUpperCase (hw_macAddress hw)),
                           hardware := Some (hw_version hw)\<rparr>
                    else s
                | None \<Rightarrow> s)
      in case sys_firmware sys of
           None \<Rightarrow> (s1, False)
         | Some fw \<Rightarrow>
             let changed = (ipAddress s1 \<noteq> Some (fw_innerIp fw));
                 s2 = (if changed then s1\<lparr>ipAddress := Some (fw_innerIp fw)\<rparr> else s1);
                 s3 = (if firstRun then s2\<lparr>firmware := Some (fw_version fw)\<rparr> else s2)
             in (s3, changed))"

text \<open>Lines 218 to 224, once \<^verbatim>\<open>data.all.system\<close> is known to be an object.\<close>

definition applyOnline :: "online_info option \<Rightarrow> device \<Rightarrow> device \<times> bool" where
  "applyOnline on s =
     (case on of
        None \<Rightarrow> (s, False)
      | Some info \<Rightarrow>
          let nowOnline = (status info = 1) in
          if isOnline s \<noteq> nowOnline then (s\<lparr>isOnline := nowOnline\<rparr>, True) else (s, False))"

text \<open>
  The queued task from the point where the response has arrived. Line 218 reads
  \<^verbatim>\<open>data.all.system.online\<close> outside the guard of line 195, so a response with
  \<^verbatim>\<open>all\<close> and without \<^verbatim>\<open>all.system\<close> throws there, after the digest has been handled.
\<close>

definition pollResponse ::
  "config \<Rightarrow> bool \<Rightarrow> poll_payload \<Rightarrow> device \<Rightarrow> (js_error + unit) \<times> device \<times> effect list" where
  "pollResponse cfg firstRun data s =
     (let e0 = (if enableDebugLogging cfg then [Log IncPoll] else []) in
      case p_all data of
        None \<Rightarrow> (Inr (), s, e0)
      | Some a \<Rightarrow>
          let (s1, e1) = (case all_digest a of Some d \<Rightarrow> applyDigest cfg d s | None \<Rightarrow> (s, []))
          in (case all_system a of
                None \<Rightarrow> (Inl TypeError, s1, e0 @ e1)
              | Some sys \<Rightarrow>
                  let (s2, n1) = applySystem firstRun sys s1;
                      (s3, n2) = applyOnline (sys_online sys) s2
                  in (Inr (), s3,
                      e0 @ e1 @ (if n1 \<or> n2 \<or> firstRun then [UpdateAccessory] else []))))"

text \<open>The catch block, lines 232 to 246.\<close>

definition pollFailed :: "config \<Rightarrow> bool \<Rightarrow> js_error \<Rightarrow> device \<Rightarrow> device \<times> effect list" where
  "pollFailed cfg firstRun err s =
     (let t = eText cfg err;
          e0 = (if enableDebugLogging cfg then [Warn (ReqFailed t)] else [])
      in if (isOnline s \<or> firstRun) \<and> list_ex (str_includes t) [''EHOSTUNREACH'', ''timed out'']
         then (s\<lparr>isOnline := False\<rparr>, e0 @ [UpdateAccessory])
         else (s, e0))"

definition requestUpdate ::
  "config \<Rightarrow> bool \<Rightarrow> poll_payload outcome \<Rightarrow> device \<Rightarrow> device \<times> effect list" where
  "requestUpdate cfg firstRun res s =
     (if updateInProgress s then (s, [])
      else
        let s0 = s\<lparr>updateInProgress := True\<rparr>;
            e0 = [SendUpdate ''Appliance.System.All'' NoPayload]
        in case res of
             Rejected err \<Rightarrow>
               (let (s1, e1) = pollFailed cfg firstRun err s0 in (s1, e0 @ e1))
           | Abandoned \<Rightarrow>
               (let (s1, e1) = pollFailed cfg firstRun TimeoutError s0 in (s1, e0 @ e1))
           | Resolved data \<Rightarrow>
               (case pollResponse cfg firstRun data s0 of
                  (Inl err, s1, e1) \<Rightarrow>
                    (let (s2, e2) = pollFailed cfg firstRun err s1 in (s2, e0 @ e1 @ e2))
                | (Inr u, s1, e1) \<Rightarrow> (s1, e0 @ e1)))"

text \<open>
  The rest of an abandoned poll task, run when its send resolves after the timeout: the
  response is handled as usual, and an error the handler throws reaches nobody.
\<close>

definition pollResumed ::
  "config \<Rightarrow> bool \<Rightarrow> poll_payload \<Rightarrow> device \<Rightarrow> device \<times> effect list" where
  "pollResumed cfg firstRun data s = snd (pollResponse cfg firstRun data s)"

text \<open>The queue's \<^verbatim>\<open>idle\<close> handler, lines 66 to 68.\<close>

definition queue_idle :: "device \<Rightarrow> device" where
  "queue_idle s = s\<lparr>updateInProgress := False\<rparr>"

subsection \<open>internalStateUpdate\<close>

datatype hap_error = HapStatusError int

text \<open>
  The method returns normally (\<open>Inr\<close>) or throws the HAP error (\<open>Inl\<close>). In the catch
  block it starts a timer of 2000 ms; \<open>revertTimer\<close> is the callback of that timer, run
  on the state the handler has when the timer fires. \<open>commandResumed\<close> is the rest of an
  abandoned command task (lines 135 to 142), run when its send resolves after the timeout.
\<close>

definition internalStateUpdate ::
  "config \<Rightarrow> bool \<Rightarrow> unit outcome \<Rightarrow> device \<Rightarrow> (hap_error + unit) \<times> device \<times> effect list" where
  "internalStateUpdate cfg value res s =
     (if value = cacheState s then (Inr (), s, [])
      else
        let s1 = s\<lparr>updateInProgress := True\<rparr>;
            onoff = (if value then 1 else 0);
            cmd = (if truthy (isToggleX s1)
                   then SendUpdate ''Appliance.Control.ToggleX'' (ToggleX onoff 0)
                   else SendUpdate ''Appliance.Control.Toggle'' (Toggle onoff))
        in case res of
             Resolved u \<Rightarrow>
               (Inr (), s1\<lparr>cacheState := value\<rparr>,
                [cmd, AddEntry (if value then 1 else 0)]
                @ (if enableLogging cfg then [Log (CurrentState value)] else []))
           | Rejected err \<Rightarrow>
               (Inl (HapStatusError (- 70402)), s1,
                [cmd, Warn (SendFailed (eText cfg err)), SetTimeout 2000])
           | Abandoned \<Rightarrow>
               (Inl (HapStatusError (- 70402)), s1,
                [cmd, Warn (SendFailed (eText cfg TimeoutError)), SetTimeout 2000]))"

definition commandResumed :: "config \<Rightarrow> bool \<Rightarrow> device \<Rightarrow> device \<times> effect list" where
  "commandResumed cfg value s =
     (s\<lparr>cacheState := value\<rparr>,
      [AddEntry (if value then 1 else 0)]
      @ (if enableLogging cfg then [Log (CurrentState value)] else []))"

definition revertTimer :: "device \<Rightarrow> device \<times> effect list" where
  "revertTimer s = (s, [UpdateCharacteristic On (BoolVal (cacheState s))])"

subsection \<open>Concrete configurations, states and responses\<close>

definition cfg_five :: config where
  "cfg_five =
     \<lparr>enableLogging = False, enableDebugLogging = False, inUsePowerThreshold = 5,
      lang_timeout = ''timed out'', typeError_text = ''Cannot read properties of undefined''\<rparr>"

text \<open>A handler whose switch is on and whose power readings have just been set up.\<close>

definition dev_on :: device where
  "dev_on =
     \<lparr>cacheState = True, cachePower = None, cacheVoltage = None, cacheInUse = Some False,
      isToggleX = None, updateInProgress = False, isOnline = True, ipAddress = None,
      macAddress = None, hardware = None, firmware = None\<rparr>"

text \<open>A handler before its first poll, the switch off.\<close>

definition dev_off :: device where
  "dev_off =
     \<lparr>cacheState = False, cachePower = None, cacheVoltage = None, cacheInUse = None,
      isToggleX = None, updateInProgress = False, isOnline = True, ipAddress = None,
      macAddress = None, hardware = None, firmware = None\<rparr>"

text \<open>A handler whose switch is on and draws 12 W, above the threshold of 5 W.\<close>

definition dev_load :: device where
  "dev_load =
     \<lparr>cacheState = True, cachePower = Some 12000, cacheVoltage = Some 2300,
      cacheInUse = Some True, isToggleX = Some True, updateInProgress = False,
      isOnline = True, ipAddress = None, macAddress = None, hardware = None,
      firmware = None\<rparr>"

definition frag_on :: fragment where
  "frag_on = \<lparr>frag_onoff = Some 1, frag_power = None, frag_voltage = None\<rparr>"

definition frag_off :: fragment where
  "frag_off = \<lparr>frag_onoff = Some 0, frag_power = None, frag_voltage = None\<rparr>"

definition frag_electricity :: fragment where
  "frag_electricity = \<lparr>frag_onoff = None, frag_power = Some 12000, frag_voltage = Some 2300\<rparr>"

definition sys_plain :: system_info where
  "sys_plain = \<lparr>sys_hardware = None, sys_firmware = None, sys_online = None\<rparr>"

text \<open>A response of the ToggleX shape, one of the Toggle shape, and one without \<^verbatim>\<open>system\<close>.\<close>

definition resp_togglex :: poll_payload where
  "resp_togglex =
     \<lparr>p_all = Some \<lparr>all_digest = Some \<lparr>togglex = Some [frag_on], toggle = None\<rparr>,
                      all_system = Some sys_plain\<rparr>\<rparr>"

definition resp_toggle :: poll_payload where
  "resp_toggle =
     \<lparr>p_all = Some \<lparr>all_digest = Some \<lparr>togglex = None, toggle = Some frag_on\<rparr>,
                      all_system = Some sys_plain\<rparr>\<rparr>"

definition all_no_system :: all_info where
  "all_no_system =
     \<lparr>all_digest = Some \<lparr>togglex = Some [frag_on], toggle = None\<rparr>, all_system = None\<rparr>"

definition resp_no_system :: poll_payload where
  "resp_no_system = \<lparr>p_all = Some all_no_system\<rparr>"

section \<open>Properties\<close>

subsection \<open>Doubles, rounding and the blocks of applyUpdate\<close>

lemma exponent_from_le:
  "x < 2 powi (E + 1) \<Longrightarrow> - 1022 \<le> E \<Longrightarrow> exponent_from n x \<le> E"
proof (induction n)
  case 0
  then show ?case by simp
next
  case (Suc n)
  show ?case
  proof (cases "2 powi (int (Suc n) - 1022) \<le> x")
    case True
    have "int (Suc n) - 1022 < E + 1"
    proof (rule ccontr)
      assume "\<not> int (Suc n) - 1022 < E + 1"
      then have "(2::rat) powi (E + 1) \<le> 2 powi (int (Suc n) - 1022)"
        by (intro power_int_increasing) simp_all
      with True Suc.prems(1) show False by simp
    qed
    with True show ?thesis by simp
  next
    case False
    with Suc show ?thesis by simp
  qed
qed

lemma exponent_le: "\<bar>x\<bar> < 2 powi (E + 1) \<Longrightarrow> - 1022 \<le> E \<Longrightarrow> exponent x \<le> E"
  unfolding exponent_def by (rule exponent_from_le)

lemma round_half_even_int: "round_half_even (of_int n) = n"
  by (simp add: round_half_even_def)

lemma round_half_even_near: "\<bar>of_int (round_half_even y) - y\<bar> \<le> 1 / 2"
proof -
  have "of_int \<lfloor>y\<rfloor> \<le> y" and "y < of_int \<lfloor>y\<rfloor> + 1"
    by linarith+
  then show ?thesis
    by (auto simp add: round_half_even_def Let_def)
qed

lemma to_double_int:
  assumes "\<bar>m\<bar> < 2 ^ 53"
  shows "to_double (of_int m) = Finite (of_int m)"
proof -
  have "\<bar>of_int m :: rat\<bar> < 2 ^ 53"
    using assms by (metis of_int_abs of_int_less_numeral_power_cancel_iff)
  then have "\<bar>of_int m :: rat\<bar> < 2 powi (52 + 1)" by simp
  then have e: "exponent (of_int m) \<le> 52" by (rule exponent_le) simp
  define k where "k = nat (52 - exponent (of_int m))"
  have q: "(2::rat) powi (exponent (of_int m) - 52) = 1 / 2 ^ k"
  proof -
    have "exponent (of_int m) - 52 = - int k" using e by (simp add: k_def)
    then have "(2::rat) powi (exponent (of_int m) - 52) = 2 powi (- int k)" by simp
    also have "\<dots> = 1 / 2 ^ k"
      by (simp only: power_int_minus_divide power_int_of_nat)
    finally show ?thesis .
  qed
  have "of_int m / (1 / 2 ^ k) = (of_int (m * 2 ^ k) :: rat)" by simp
  then have r: "round_half_even (of_int m / (1 / 2 ^ k)) = m * 2 ^ k"
    by (simp only: round_half_even_int)
  have v: "(of_int (m * 2 ^ k) :: rat) * (1 / 2 ^ k) = of_int m" by simp
  have b: "\<not> (2::rat) powi 1024 \<le> of_int m" "\<not> (of_int m :: rat) \<le> - (2 powi 1024)"
    using \<open>\<bar>of_int m :: rat\<bar> < 2 ^ 53\<close> by (simp_all add: abs_less_iff)
  show ?thesis
    unfolding to_double_def Let_def q r v using b by simp
qed

lemma to_double_near:
  assumes "\<bar>x\<bar> < 2 powi (E + 1)" and "- 1022 \<le> E" and "E \<le> 1022"
  shows "\<exists>r. to_double x = Finite r \<and> \<bar>r - x\<bar> \<le> 2 powi (E - 52) / 2
    \<and> (\<forall>n. x / 2 powi (exponent x - 52) = of_int n \<longrightarrow> r = x)"
proof -
  define q :: rat where "q = 2 powi (exponent x - 52)"
  define r :: rat where "r = of_int (round_half_even (x / q)) * q"
  have e: "exponent x \<le> E" using assms(1,2) by (rule exponent_le)
  have qpos: "0 < q" by (simp add: q_def)
  have qle: "q \<le> 2 powi (E - 52)"
    unfolding q_def using e by (intro power_int_increasing) simp_all
  have "\<bar>of_int (round_half_even (x / q)) - x / q\<bar> \<le> 1 / 2"
    by (rule round_half_even_near)
  then have "\<bar>of_int (round_half_even (x / q)) - x / q\<bar> * q \<le> 1 / 2 * q"
    using qpos by (intro mult_right_mono) simp_all
  moreover have "\<bar>of_int (round_half_even (x / q)) - x / q\<bar> * q = \<bar>r - x\<bar>"
  proof -
    have "\<bar>of_int (round_half_even (x / q)) - x / q\<bar> * q
        = \<bar>(of_int (round_half_even (x / q)) - x / q) * q\<bar>"
      using qpos by (simp add: abs_mult)
    also have "(of_int (round_half_even (x / q)) - x / q) * q = r - x"
      using qpos by (simp add: r_def algebra_simps)
    finally show ?thesis .
  qed
  ultimately have near: "\<bar>r - x\<bar> \<le> q / 2" by simp
  with qle have near': "\<bar>r - x\<bar> \<le> 2 powi (E - 52) / 2" by simp
  have "(2::rat) powi (E - 52) \<le> 2 powi 970"
    using assms(3) by (intro power_int_increasing) simp_all
  moreover have "(2::rat) powi (E + 1) \<le> 2 powi 1023"
    using assms(3) by (intro power_int_increasing) simp_all
  moreover have "(2::rat) powi 970 / 2 + 2 powi 1023 < 2 powi 1024" by simp
  ultimately have "\<bar>r\<bar> < 2 powi 1024"
    using near' assms(1) by linarith
  then have fin: "\<not> 2 powi 1024 \<le> r" "\<not> r \<le> - (2 powi 1024)"
    by (simp_all add: abs_less_iff)
  have d: "to_double x = Finite r"
    unfolding to_double_def Let_def q_def [symmetric] r_def [symmetric] using fin by simp
  have "x / q = of_int n \<Longrightarrow> r = x" for n
  proof -
    assume a: "x / q = of_int n"
    then have "round_half_even (x / q) = n" by (simp add: round_half_even_int)
    then have "r = of_int n * q" by (simp add: r_def)
    also have "\<dots> = x" using a qpos by (simp add: field_simps)
    finally show ?thesis .
  qed
  with d near' show ?thesis unfolding q_def by blast
qed

lemma Math_round_tenth:
  assumes "\<bar>p\<bar> < 2 ^ 53"
  shows "Math_round (js_divide (Finite (of_int p)) 10) = Finite (of_int ((p + 5) div 10))"
proof -
  define x :: rat where "x = of_int p / 10"
  define m where "m = (p + 5) div 10"
  define j where "j = (p + 5) mod 10"
  have pj: "p + 5 = 10 * m + j" and j: "0 \<le> j" "j < 10"
    unfolding m_def j_def by simp_all
  have xm: "x + 1 / 2 = of_int m + of_int j / 10"
  proof -
    have "x + 1 / 2 = of_int (p + 5) / 10" by (simp add: x_def)
    also have "\<dots> = of_int m + of_int j / 10" unfolding pj by simp
    finally show ?thesis .
  qed
  have "\<bar>of_int p :: rat\<bar> < 2 ^ 53"
    using assms by (metis of_int_abs of_int_less_numeral_power_cancel_iff)
  then have "\<bar>x\<bar> < 2 ^ 53 / 10" by (simp add: x_def)
  then have xb: "\<bar>x\<bar> < 2 powi (49 + 1)" by simp
  from to_double_near [OF xb] obtain r where r: "to_double x = Finite r"
    and near: "\<bar>r - x\<bar> \<le> 2 powi (49 - 52) / 2"
    and exact: "\<And>n. x / 2 powi (exponent x - 52) = of_int n \<Longrightarrow> r = x"
    by auto
  have near': "\<bar>r - x\<bar> \<le> 1 / 16" using near by simp
  have "\<lfloor>r + 1 / 2\<rfloor> = m"
  proof (cases "j = 0")
    case True
    with xm have xh: "x = of_int (2 * m - 1) / 2" by simp
    have e: "exponent x \<le> 49" using xb by (rule exponent_le) simp
    define k where "k = nat (51 - exponent x)"
    have "(2::rat) powi (exponent x - 52) = 1 / (2 * 2 ^ k)"
    proof -
      have "exponent x - 52 = - int (Suc k)" using e by (simp add: k_def)
      then have "(2::rat) powi (exponent x - 52) = 2 powi (- int (Suc k))" by simp
      also have "\<dots> = 1 / 2 ^ Suc k"
        by (simp only: power_int_minus_divide power_int_of_nat)
      finally show ?thesis by simp
    qed
    then have "x / 2 powi (exponent x - 52) = of_int ((2 * m - 1) * 2 ^ k)"
      by (simp add: xh)
    then have "r = x" by (rule exact)
    with xm True show ?thesis by simp
  next
    case False
    with j have "1 \<le> j" "j \<le> 9" by simp_all
    then have "(1::rat) / 10 \<le> of_int j / 10" "(of_int j :: rat) / 10 \<le> 9 / 10"
      by simp_all
    moreover have "- (1 / 16) \<le> r - x" "r - x \<le> 1 / 16"
      using near' by linarith+
    ultimately have "of_int m \<le> r + 1 / 2" "r + 1 / 2 < of_int m + 1"
      using xm by linarith+
    then show ?thesis by (intro floor_unique) simp_all
  qed
  then show ?thesis
    by (simp add: r x_def [symmetric] m_def)
qed

lemma scaledPower_safe:
  assumes "\<bar>p\<bar> < 2 ^ 53"
  shows "scaledPower p = to_double (of_int ((p + 5) div 10) / 100)"
  unfolding scaledPower_def Math_round_tenth [OF assms] by (simp only: js_divide.simps)

lemma scaledVoltage_safe:
  assumes "\<bar>v\<bar> * 10 < 2 ^ 53"
  shows "scaledVoltage v = to_double (of_int v / 10)"
proof -
  have "\<bar>v * 10\<bar> < 2 ^ 53" using assms by (simp add: abs_mult)
  then have "to_double (of_int (v * 10)) = Finite (of_int (v * 10))"
    by (rule to_double_int)
  then have "js_times (Finite (of_int v)) 10 = Finite (of_int (v * 10))"
    by simp
  moreover have "\<lfloor>(of_int (v * 10) :: rat) + 1 / 2\<rfloor> = v * 10"
    by (intro floor_unique) simp_all
  ultimately have "Math_round (js_times (Finite (of_int v)) 10) = Finite (of_int (v * 10))"
    by (simp only: Math_round.simps)
  then show ?thesis
    by (simp add: scaledVoltage_def)
qed

lemma scaledPower_12000: "scaledPower 12000 = Finite 12"
  using scaledPower_safe [of 12000] to_double_int [of 12] by simp

lemma scaledPower_12001: "scaledPower 12001 = Finite 12"
  using scaledPower_safe [of 12001] to_double_int [of 12] by simp

lemma scaledVoltage_2300: "scaledVoltage 2300 = Finite 230"
  using scaledVoltage_safe [of 2300] to_double_int [of 230] by simp

lemma writes_append: "writes c (xs @ ys) = writes c xs @ writes c ys"
  by (induction c xs rule: writes.induct) simp_all

lemma entries_append: "entries (xs @ ys) = entries xs @ entries ys"
  by (induction xs rule: entries.induct) simp_all

lemma fst_applyUpdate:
  "fst (applyUpdate cfg d s) =
     fst (applyVoltage cfg d (fst (applyPower cfg d (fst (applyOnoff cfg d s)))))"
  by (simp add: applyUpdate_def split: prod.split)

lemma snd_applyUpdate:
  "snd (applyUpdate cfg d s) =
     snd (applyOnoff cfg d s)
     @ snd (applyPower cfg d (fst (applyOnoff cfg d s)))
     @ snd (applyVoltage cfg d (fst (applyPower cfg d (fst (applyOnoff cfg d s)))))"
  by (simp add: applyUpdate_def split: prod.split)

lemma fst_applyOnoff:
  "fst (applyOnoff cfg d s) =
     (case frag_onoff d of None \<Rightarrow> s | Some v \<Rightarrow> s\<lparr>cacheState := (v = 1)\<rparr>)"
  by (cases s) (simp add: applyOnoff_def Let_def split: option.split)

lemma fst_applyVoltage:
  "fst (applyVoltage cfg d s) =
     (case frag_voltage d of None \<Rightarrow> s | Some v \<Rightarrow> s\<lparr>cacheVoltage := Some v\<rparr>)"
  by (cases s) (auto simp add: applyVoltage_def split: option.split)

lemma fst_applyPower:
  "fst (applyPower cfg d s) =
     (case frag_power d of
        None \<Rightarrow> s
      | Some p \<Rightarrow>
          if cachePower s = Some p then s
          else s\<lparr>cachePower := Some p,
                 cacheInUse :=
                   Some (cacheState s \<and> js_greater (scaledPower p) (inUsePowerThreshold cfg))\<rparr>)"
  by (cases s) (auto simp add: applyPower_def Let_def split: option.split)

lemma writes_applyOnoff:
  "writes c (snd (applyOnoff cfg d s)) =
     (case frag_onoff d of
        None \<Rightarrow> []
      | Some v \<Rightarrow> if c \<noteq> On \<or> cacheState s = (v = 1) then [] else [BoolVal (v = 1)])"
  by (simp add: applyOnoff_def Let_def split: option.split)

lemma writes_applyVoltage:
  "writes c (snd (applyVoltage cfg d s)) =
     (case frag_voltage d of
        None \<Rightarrow> []
      | Some v \<Rightarrow>
          if c \<noteq> Voltage \<or> cacheVoltage s = Some v then [] else [NumVal (scaledVoltage v)])"
  by (simp add: applyVoltage_def split: option.split)

lemma writes_Consumption_applyPower:
  "writes CurrentConsumption (snd (applyPower cfg d s)) =
     (case frag_power d of
        None \<Rightarrow> []
      | Some p \<Rightarrow> if cachePower s = Some p then [] else [NumVal (scaledPower p)])"
  by (simp add: applyPower_def Let_def writes_append split: option.split)

lemma writes_InUse_applyPower:
  "writes OutletInUse (snd (applyPower cfg d s)) =
     (if cacheInUse (fst (applyPower cfg d s)) = cacheInUse s then []
      else [BoolVal (truthy (cacheInUse (fst (applyPower cfg d s))))])"
  by (simp add: applyPower_def Let_def writes_append split: option.split)

lemma writes_other_applyPower:
  "c = On \<or> c = Voltage \<Longrightarrow> writes c (snd (applyPower cfg d s)) = []"
  by (auto simp add: applyPower_def Let_def writes_append split: option.split)

lemma cacheState_applyUpdate:
  "cacheState (fst (applyUpdate cfg d s)) =
     (case frag_onoff d of None \<Rightarrow> cacheState s | Some v \<Rightarrow> (v = 1))"
  by (simp add: fst_applyUpdate fst_applyOnoff fst_applyPower fst_applyVoltage
      split: option.split)

lemma cachePower_applyUpdate:
  "cachePower (fst (applyUpdate cfg d s)) =
     (case frag_power d of None \<Rightarrow> cachePower s | Some p \<Rightarrow> Some p)"
  by (simp add: fst_applyUpdate fst_applyOnoff fst_applyPower fst_applyVoltage
      split: option.split)

lemma cacheVoltage_applyUpdate:
  "cacheVoltage (fst (applyUpdate cfg d s)) =
     (case frag_voltage d of None \<Rightarrow> cacheVoltage s | Some v \<Rightarrow> Some v)"
  by (simp add: fst_applyUpdate fst_applyOnoff fst_applyPower fst_applyVoltage
      split: option.split)

lemma cacheInUse_applyUpdate:
  "cacheInUse (fst (applyUpdate cfg d s)) =
     (case frag_power d of
        None \<Rightarrow> cacheInUse s
      | Some p \<Rightarrow>
          if cachePower s = Some p then cacheInUse s
          else Some (cacheState (fst (applyUpdate cfg d s))
                     \<and> js_greater (scaledPower p) (inUsePowerThreshold cfg)))"
  by (simp add: fst_applyUpdate fst_applyOnoff fst_applyPower fst_applyVoltage
      split: option.split)

lemma frame_applyUpdate:
  "isToggleX (fst (applyUpdate cfg d s)) = isToggleX s"
  "updateInProgress (fst (applyUpdate cfg d s)) = updateInProgress s"
  "isOnline (fst (applyUpdate cfg d s)) = isOnline s"
  "ipAddress (fst (applyUpdate cfg d s)) = ipAddress s"
  "macAddress (fst (applyUpdate cfg d s)) = macAddress s"
  "hardware (fst (applyUpdate cfg d s)) = hardware s"
  "firmware (fst (applyUpdate cfg d s)) = firmware s"
  by (simp_all add: fst_applyUpdate fst_applyOnoff fst_applyPower fst_applyVoltage
      split: option.split)

lemma writes_On_applyUpdate:
  "writes On (snd (applyUpdate cfg d s)) =
     (case frag_onoff d of
        None \<Rightarrow> []
      | Some v \<Rightarrow> if cacheState s = (v = 1) then [] else [BoolVal (v = 1)])"
  by (simp add: snd_applyUpdate writes_append writes_applyOnoff writes_applyVoltage
      writes_other_applyPower split: option.split)

lemma writes_Consumption_applyUpdate:
  "writes CurrentConsumption (snd (applyUpdate cfg d s)) =
     (case frag_power d of
        None \<Rightarrow> []
      | Some p \<Rightarrow> if cachePower s = Some p then [] else [NumVal (scaledPower p)])"
  by (simp add: snd_applyUpdate writes_append writes_applyOnoff writes_applyVoltage
      writes_Consumption_applyPower fst_applyOnoff split: option.split)

lemma writes_Voltage_applyUpdate:
  "writes Voltage (snd (applyUpdate cfg d s)) =
     (case frag_voltage d of
        None \<Rightarrow> []
      | Some v \<Rightarrow> if cacheVoltage s = Some v then [] else [NumVal (scaledVoltage v)])"
  by (simp add: snd_applyUpdate writes_append writes_applyOnoff writes_applyVoltage
      writes_other_applyPower fst_applyOnoff fst_applyPower split: option.split)

lemma cacheInUse_voltage_onoff:
  "cacheInUse (fst (applyVoltage cfg d s)) = cacheInUse s"
  "cacheInUse (fst (applyOnoff cfg d s)) = cacheInUse s"
  by (simp_all add: fst_applyOnoff fst_applyVoltage split: option.split)

lemma writes_InUse_applyUpdate:
  "writes OutletInUse (snd (applyUpdate cfg d s)) =
     (if cacheInUse (fst (applyUpdate cfg d s)) = cacheInUse s then []
      else [BoolVal (truthy (cacheInUse (fst (applyUpdate cfg d s))))])"
proof -
  let ?s1 = "fst (applyOnoff cfg d s)"
  have "writes OutletInUse (snd (applyUpdate cfg d s)) =
          writes OutletInUse (snd (applyPower cfg d ?s1))"
    by (simp add: snd_applyUpdate writes_append writes_applyOnoff writes_applyVoltage
        split: option.split)
  moreover have "cacheInUse (fst (applyUpdate cfg d s)) = cacheInUse (fst (applyPower cfg d ?s1))"
    by (simp add: fst_applyUpdate cacheInUse_voltage_onoff)
  moreover have "cacheInUse ?s1 = cacheInUse s"
    by (simp add: cacheInUse_voltage_onoff)
  ultimately show ?thesis
    using writes_InUse_applyPower [of cfg d ?s1] by simp
qed

lemma entries_applyUpdate:
  "entries (snd (applyUpdate cfg d s)) =
     (case frag_onoff d of
        None \<Rightarrow> []
      | Some v \<Rightarrow> if cacheState s = (v = 1) then [] else [if v = 1 then 1 else 0])"
  by (simp add: snd_applyUpdate entries_append applyOnoff_def applyPower_def applyVoltage_def
      Let_def split: option.split)

lemma cache_applyUpdates:
  "cacheState (applyUpdates cfg ds s) =
     (case last_given (map frag_onoff ds) of None \<Rightarrow> cacheState s | Some v \<Rightarrow> (v = 1))"
  "cachePower (applyUpdates cfg ds s) =
     (case last_given (map frag_power ds) of None \<Rightarrow> cachePower s | Some p \<Rightarrow> Some p)"
  "cacheVoltage (applyUpdates cfg ds s) =
     (case last_given (map frag_voltage ds) of None \<Rightarrow> cacheVoltage s | Some v \<Rightarrow> Some v)"
proof (induction ds arbitrary: s)
  case Nil
  {
    case 1 show ?case by simp
  next
    case 2 show ?case by simp
  next
    case 3 show ?case by simp
  }
next
  case (Cons d ds)
  {
    case 1
    show ?case
      by (simp add: Cons.IH(1) cacheState_applyUpdate split: option.split)
  next
    case 2
    show ?case
      by (simp add: Cons.IH(2) cachePower_applyUpdate split: option.split)
  next
    case 3
    show ?case
      by (simp add: Cons.IH(3) cacheVoltage_applyUpdate split: option.split)
  }
qed

subsection \<open>Telemetry\<close>

text \<open>
  Claim C1, as the code has it. For the fragment \<^verbatim>\<open>{power: 12000, voltage: 2300}\<close>, a
  threshold of 5, the cached on/off state true and cached raw readings other than 12000 and
  2300: the value written to the consumption characteristic is
  \<^verbatim>\<open>Math.round(12000 / 10) / 100\<close>, the double 12, which is greater than 5, so the cached
  in-use value becomes true; the value written to the voltage characteristic is
  \<^verbatim>\<open>Math.round(2300 * 10) / 100\<close>, the double 230.
\<close>
theorem applyUpdate_electricity_example:
  assumes "inUsePowerThreshold cfg = 5" and "cacheState s"
    and "cachePower s \<noteq> Some 12000" and "cacheVoltage s \<noteq> Some 2300"
  shows "writes CurrentConsumption (snd (applyUpdate cfg frag_electricity s)) = [NumVal (Finite 12)]
    \<and> inUsePowerThreshold cfg < 12
    \<and> cacheInUse (fst (applyUpdate cfg frag_electricity s)) = Some True
    \<and> writes Voltage (snd (applyUpdate cfg frag_electricity s)) = [NumVal (Finite 230)]"
proof -
  have p: "scaledPower 12000 = Finite 12" by (rule scaledPower_12000)
  have v: "scaledVoltage 2300 = Finite 230" by (rule scaledVoltage_2300)
  have "writes CurrentConsumption (snd (applyUpdate cfg frag_electricity s)) = [NumVal (Finite 12)]"
    using assms(3) by (simp add: writes_Consumption_applyUpdate frag_electricity_def p)
  moreover have "cacheInUse (fst (applyUpdate cfg frag_electricity s)) = Some True"
    using assms(1,2,3)
    by (simp add: cacheInUse_applyUpdate cacheState_applyUpdate frag_electricity_def p)
  moreover have "writes Voltage (snd (applyUpdate cfg frag_electricity s)) = [NumVal (Finite 230)]"
    using assms(4) by (simp add: writes_Voltage_applyUpdate frag_electricity_def v)
  ultimately show ?thesis using assms(1) by simp
qed

text \<open>The same on a handler whose in-use value was false: the change is notified as true.\<close>
theorem applyUpdate_electricity_example_witness:
  "writes CurrentConsumption (snd (applyUpdate cfg_five frag_electricity dev_on))
      = [NumVal (Finite 12)]
    \<and> cacheInUse (fst (applyUpdate cfg_five frag_electricity dev_on)) = Some True
    \<and> writes OutletInUse (snd (applyUpdate cfg_five frag_electricity dev_on)) = [BoolVal True]
    \<and> writes Voltage (snd (applyUpdate cfg_five frag_electricity dev_on))
      = [NumVal (Finite 230)]"
proof -
  have "cacheInUse dev_on = Some False" by (simp add: dev_on_def)
  then show ?thesis
    using applyUpdate_electricity_example [of cfg_five dev_on]
    by (simp add: cfg_five_def dev_on_def writes_InUse_applyUpdate)
qed

text \<open>
  Claim C1 as the specification words it (1.20 W, in-use false, 23.00 V) fails on that
  handler in each of its three parts.
\<close>
theorem applyUpdate_electricity_counterexample:
  "writes CurrentConsumption (snd (applyUpdate cfg_five frag_electricity dev_on))
      \<noteq> [NumVal (Finite (12 / 10))]
    \<and> cacheInUse (fst (applyUpdate cfg_five frag_electricity dev_on)) \<noteq> Some False
    \<and> writes Voltage (snd (applyUpdate cfg_five frag_electricity dev_on))
      \<noteq> [NumVal (Finite 23)]"
  by (simp add: writes_Consumption_applyUpdate writes_Voltage_applyUpdate cacheInUse_applyUpdate
      cacheState_applyUpdate frag_electricity_def dev_on_def cfg_five_def scaledPower_12000
      scaledVoltage_2300)

text \<open>
  Claim C2, as the code has it. \<^verbatim>\<open>applyUpdate\<close> compares the raw power and voltage readings
  with the cache and stores them raw; only the value written to the characteristic is
  scaled, in double arithmetic: a raw power \<open>p\<close> is written as
  \<^verbatim>\<open>Math.round(p / 10) / 100\<close> and a raw voltage \<open>v\<close> as \<^verbatim>\<open>Math.round(v * 10) / 100\<close>. For a
  raw power below \<open>2 ^ 53\<close> in magnitude the value written is the double nearest to
  \<open>p / 10\<close> rounded half up and divided by 100, that is \<open>p / 1000\<close> to two decimals; for a raw
  voltage with \<open>10 * \<bar>v\<bar>\<close> below \<open>2 ^ 53\<close> it is the double nearest to \<open>v / 10\<close>.
\<close>
theorem applyUpdate_raw_cache:
  "cachePower (fst (applyUpdate cfg d s)) =
     (case frag_power d of None \<Rightarrow> cachePower s | Some p \<Rightarrow> Some p)
   \<and> cacheVoltage (fst (applyUpdate cfg d s)) =
     (case frag_voltage d of None \<Rightarrow> cacheVoltage s | Some v \<Rightarrow> Some v)
   \<and> writes CurrentConsumption (snd (applyUpdate cfg d s)) =
     (case frag_power d of
        None \<Rightarrow> []
      | Some p \<Rightarrow> if cachePower s = Some p then [] else [NumVal (scaledPower p)])
   \<and> writes Voltage (snd (applyUpdate cfg d s)) =
     (case frag_voltage d of
        None \<Rightarrow> []
      | Some v \<Rightarrow> if cacheVoltage s = Some v then [] else [NumVal (scaledVoltage v)])
   \<and> (\<bar>p\<bar> < 2 ^ 53 \<longrightarrow> scaledPower p = to_double (of_int ((p + 5) div 10) / 100))
   \<and> (\<bar>v\<bar> * 10 < 2 ^ 53 \<longrightarrow> scaledVoltage v = to_double (of_int v / 10))"
  using cachePower_applyUpdate [of cfg d s] cacheVoltage_applyUpdate [of cfg d s]
    writes_Consumption_applyUpdate [of cfg d s] writes_Voltage_applyUpdate [of cfg d s]
    scaledPower_safe [of p] scaledVoltage_safe [of v]
  by blast

text \<open>The first power fragment a handler receives: 12000 is written as 12, 2300 as 230.\<close>
theorem applyUpdate_raw_cache_witness:
  "cachePower (fst (applyUpdate cfg_five frag_electricity dev_on)) = Some 12000
   \<and> cacheVoltage (fst (applyUpdate cfg_five frag_electricity dev_on)) = Some 2300
   \<and> writes CurrentConsumption (snd (applyUpdate cfg_five frag_electricity dev_on))
      = [NumVal (scaledPower 12000)]
   \<and> writes Voltage (snd (applyUpdate cfg_five frag_electricity dev_on))
      = [NumVal (scaledVoltage 2300)]
   \<and> scaledPower 12000 = Finite 12
   \<and> scaledVoltage 2300 = Finite 230"
proof -
  have a: "\<bar>12000 :: int\<bar> < 2 ^ 53" and b: "\<bar>2300 :: int\<bar> * 10 < 2 ^ 53"
    by simp_all
  have c: "to_double 12 = Finite 12" "to_double 230 = Finite 230"
    using to_double_int [of 12] to_double_int [of 230] by simp_all
  show ?thesis
    using applyUpdate_raw_cache [of cfg_five frag_electricity dev_on 12000 2300] a b c
    by (simp add: frag_electricity_def dev_on_def)
qed

text \<open>
  Claim C2 as the specification words it fails: after the fragment of claim C1 the cached
  power is the raw 12000 and not the scaled 12; the raw readings 12001 and 12000 scale to the
  same 12.00 W, yet 12001 arriving on a cache of 12000 is written to the characteristic; and
  the raw voltage 2300 is not scaled to 2300 / 100.
\<close>
theorem applyUpdate_scaled_cache_counterexample:
  "map_option (\<lambda>p. Finite (of_int p))
       (cachePower (fst (applyUpdate cfg_five frag_electricity dev_on)))
     \<noteq> Some (scaledPower 12000)
   \<and> scaledPower 12001 = scaledPower 12000
   \<and> writes CurrentConsumption
       (snd (applyUpdate cfg_five \<lparr>frag_onoff = None, frag_power = Some 12001, frag_voltage = None\<rparr>
          dev_load)) \<noteq> []
   \<and> scaledVoltage 2300 \<noteq> Finite (2300 / 100)"
  by (simp add: cachePower_applyUpdate writes_Consumption_applyUpdate frag_electricity_def
      dev_load_def scaledPower_12000 scaledPower_12001 scaledVoltage_2300)

text \<open>
  Claim C5. After any run of \<^verbatim>\<open>applyUpdate\<close> calls the cached on/off state, power and
  voltage are those of the last fragment that carried the field (the starting value when no
  fragment did). Each single call writes a characteristic exactly once when the incoming
  value of its field differs from the cached value, and not at all when the field is absent
  or its value equals the cached one; the in-use characteristic is written exactly once when
  the call changes the cached in-use value and not at all otherwise. A change of the on/off
  state also adds exactly one history entry, and nothing else adds one.
\<close>
theorem applyUpdate_cache_and_notifications:
  "cacheState (applyUpdates cfg ds s) =
     (case last_given (map frag_onoff ds) of None \<Rightarrow> cacheState s | Some v \<Rightarrow> (v = 1))
   \<and> cachePower (applyUpdates cfg ds s) =
     (case last_given (map frag_power ds) of None \<Rightarrow> cachePower s | Some p \<Rightarrow> Some p)
   \<and> cacheVoltage (applyUpdates cfg ds s) =
     (case last_given (map frag_voltage ds) of None \<Rightarrow> cacheVoltage s | Some v \<Rightarrow> Some v)
   \<and> writes On (snd (applyUpdate cfg d s)) =
     (case frag_onoff d of
        None \<Rightarrow> []
      | Some v \<Rightarrow> if cacheState s = (v = 1) then [] else [BoolVal (v = 1)])
   \<and> writes CurrentConsumption (snd (applyUpdate cfg d s)) =
     (case frag_power d of
        None \<Rightarrow> []
      | Some p \<Rightarrow> if cachePower s = Some p then [] else [NumVal (scaledPower p)])
   \<and> writes Voltage (snd (applyUpdate cfg d s)) =
     (case frag_voltage d of
        None \<Rightarrow> []
      | Some v \<Rightarrow> if cacheVoltage s = Some v then [] else [NumVal (scaledVoltage v)])
   \<and> writes OutletInUse (snd (applyUpdate cfg d s)) =
     (if cacheInUse (fst (applyUpdate cfg d s)) = cacheInUse s then []
      else [BoolVal (truthy (cacheInUse (fst (applyUpdate cfg d s))))])
   \<and> entries (snd (applyUpdate cfg d s)) =
     (case frag_onoff d of
        None \<Rightarrow> []
      | Some v \<Rightarrow> if cacheState s = (v = 1) then [] else [if v = 1 then 1 else 0])"
  using cache_applyUpdates [of cfg ds s] writes_On_applyUpdate [of cfg d s]
    writes_Consumption_applyUpdate [of cfg d s] writes_Voltage_applyUpdate [of cfg d s]
    writes_InUse_applyUpdate [of cfg d s] entries_applyUpdate [of cfg d s]
  by (intro conjI) assumption+

text \<open>A run that ends on a repeated fragment, and calls with equal and with differing values.\<close>
theorem applyUpdate_cache_and_notifications_witness:
  "cacheState (applyUpdates cfg_five [frag_off, frag_electricity, frag_on, frag_on] dev_load) = True
   \<and> cachePower (applyUpdates cfg_five [frag_off, frag_electricity, frag_on, frag_on] dev_load)
       = Some 12000
   \<and> writes On (snd (applyUpdate cfg_five frag_on dev_load)) = []
   \<and> writes On (snd (applyUpdate cfg_five frag_off dev_load)) = [BoolVal False]
   \<and> writes CurrentConsumption (snd (applyUpdate cfg_five frag_electricity dev_load)) = []
   \<and> writes Voltage (snd (applyUpdate cfg_five frag_electricity dev_load)) = []
   \<and> writes OutletInUse (snd (applyUpdate cfg_five frag_electricity dev_load)) = []"
  using applyUpdate_cache_and_notifications
      [of cfg_five "[frag_off, frag_electricity, frag_on, frag_on]" dev_load frag_on]
    applyUpdate_cache_and_notifications [of cfg_five "[]" dev_load frag_off]
    applyUpdate_cache_and_notifications [of cfg_five "[]" dev_load frag_electricity]
  by (simp add: frag_on_def frag_off_def frag_electricity_def dev_load_def
      cacheInUse_applyUpdate)

text \<open>
  Claim C10. A fragment without a power field, or whose power equals the cached power,
  leaves the cached in-use value as it is and writes nothing to the in-use characteristic:
  the in-use value changes only on a power reading that differs from the cache.
\<close>
theorem applyUpdate_inUse_frame:
  assumes "frag_power d = None \<or> frag_power d = cachePower s"
  shows "cacheInUse (fst (applyUpdate cfg d s)) = cacheInUse s
    \<and> writes OutletInUse (snd (applyUpdate cfg d s)) = []"
proof -
  have "cacheInUse (fst (applyUpdate cfg d s)) = cacheInUse s"
    using assms by (auto simp add: cacheInUse_applyUpdate split: option.split)
  then show ?thesis by (simp add: writes_InUse_applyUpdate)
qed

text \<open>
  A switch that is on and in use is reported off: the cached state becomes false and the
  in-use value stays true.
\<close>
theorem applyUpdate_inUse_frame_witness:
  "cacheState dev_load \<and> cacheInUse dev_load = Some True
   \<and> cacheState (fst (applyUpdate cfg_five frag_off dev_load)) = False
   \<and> cacheInUse (fst (applyUpdate cfg_five frag_off dev_load)) = Some True
   \<and> writes OutletInUse (snd (applyUpdate cfg_five frag_off dev_load)) = []"
proof -
  have h: "frag_power frag_off = None \<or> frag_power frag_off = cachePower dev_load"
    by (simp add: frag_off_def)
  have "cacheState (fst (applyUpdate cfg_five frag_off dev_load)) = False"
    by (simp add: cacheState_applyUpdate frag_off_def)
  then show ?thesis
    using applyUpdate_inUse_frame [OF h, of cfg_five] by (simp add: dev_load_def)
qed

subsection \<open>The stages of requestUpdate\<close>

lemma accessory_updates_append:
  "accessory_updates (xs @ ys) = accessory_updates xs + accessory_updates ys"
  by (induction xs rule: accessory_updates.induct) simp_all

lemma accessory_updates_applyUpdate: "accessory_updates (snd (applyUpdate cfg d s)) = 0"
  by (simp add: snd_applyUpdate accessory_updates_append applyOnoff_def applyPower_def
      applyVoltage_def Let_def split: option.split)

lemma isToggleX_applyDigest:
  "isToggleX (fst (applyDigest cfg d s)) =
     (case first_elem (togglex d) of
        Some f \<Rightarrow> Some True
      | None \<Rightarrow> (case toggle d of Some f \<Rightarrow> Some False | None \<Rightarrow> isToggleX s))"
  by (simp add: applyDigest_def frame_applyUpdate split: option.split)

lemma cacheState_applyDigest:
  "cacheState (fst (applyDigest cfg d s)) =
     (case first_elem (togglex d) of
        Some f \<Rightarrow> (case frag_onoff f of None \<Rightarrow> cacheState s | Some v \<Rightarrow> (v = 1))
      | None \<Rightarrow>
          (case toggle d of
             Some f \<Rightarrow> (case frag_onoff f of None \<Rightarrow> cacheState s | Some v \<Rightarrow> (v = 1))
           | None \<Rightarrow> cacheState s))"
  by (simp add: applyDigest_def cacheState_applyUpdate split: option.split)

lemma frame_applyDigest:
  "updateInProgress (fst (applyDigest cfg d s)) = updateInProgress s"
  "isOnline (fst (applyDigest cfg d s)) = isOnline s"
  "ipAddress (fst (applyDigest cfg d s)) = ipAddress s"
  "macAddress (fst (applyDigest cfg d s)) = macAddress s"
  "hardware (fst (applyDigest cfg d s)) = hardware s"
  "firmware (fst (applyDigest cfg d s)) = firmware s"
  by (simp_all add: applyDigest_def frame_applyUpdate split: option.split)

lemma accessory_updates_applyDigest: "accessory_updates (snd (applyDigest cfg d s)) = 0"
  by (simp add: applyDigest_def accessory_updates_applyUpdate split: option.split)

lemma isToggleX_applySystem: "isToggleX (fst (applySystem firstRun sys s)) = isToggleX s"
  by (simp add: applySystem_def Let_def split: option.split)

lemma isToggleX_applyOnline: "isToggleX (fst (applyOnline on s)) = isToggleX s"
  by (simp add: applyOnline_def Let_def split: option.split)

lemma fst_pollFailed:
  "fst (pollFailed cfg firstRun err s) =
     (if (isOnline s \<or> firstRun)
         \<and> (str_includes (eText cfg err) ''EHOSTUNREACH''
            \<or> str_includes (eText cfg err) ''timed out'')
      then s\<lparr>isOnline := False\<rparr> else s)"
  by (simp add: pollFailed_def Let_def)

lemma accessory_updates_pollFailed:
  "accessory_updates (snd (pollFailed cfg firstRun err s)) =
     (if (isOnline s \<or> firstRun)
         \<and> (str_includes (eText cfg err) ''EHOSTUNREACH''
            \<or> str_includes (eText cfg err) ''timed out'')
      then 1 else 0)"
  by (simp add: pollFailed_def Let_def accessory_updates_append)

lemma requestUpdate_busy: "updateInProgress s \<Longrightarrow> requestUpdate cfg firstRun res s = (s, [])"
  by (simp add: requestUpdate_def)

lemma requestUpdate_Rejected:
  "\<not> updateInProgress s \<Longrightarrow>
   requestUpdate cfg firstRun (Rejected err) s =
     (fst (pollFailed cfg firstRun err (s\<lparr>updateInProgress := True\<rparr>)),
      SendUpdate ''Appliance.System.All'' NoPayload
      # snd (pollFailed cfg firstRun err (s\<lparr>updateInProgress := True\<rparr>)))"
  by (simp add: requestUpdate_def Let_def split: prod.split)

lemma requestUpdate_Abandoned:
  "requestUpdate cfg firstRun Abandoned s = requestUpdate cfg firstRun (Rejected TimeoutError) s"
  by (simp add: requestUpdate_def)

lemma requestUpdate_no_system:
  assumes "\<not> updateInProgress s" and "p_all data = Some a" and "all_system a = None"
  shows "requestUpdate cfg firstRun (Resolved data) s =
     (let s0 = s\<lparr>updateInProgress := True\<rparr>;
          (s1, e1) = (case all_digest a of Some d \<Rightarrow> applyDigest cfg d s0 | None \<Rightarrow> (s0, []));
          (s2, e2) = pollFailed cfg firstRun TypeError s1
      in (s2, SendUpdate ''Appliance.System.All'' NoPayload
              # (if enableDebugLogging cfg then [Log IncPoll] else []) @ e1 @ e2))"
  using assms by (simp add: requestUpdate_def pollResponse_def Let_def split: prod.split)

lemma isToggleX_pollResponse:
  "isToggleX (fst (snd (pollResponse cfg firstRun data s))) =
     (case p_all data of
        None \<Rightarrow> isToggleX s
      | Some a \<Rightarrow>
          (case all_digest a of
             None \<Rightarrow> isToggleX s
           | Some d \<Rightarrow>
               (case first_elem (togglex d) of
                  Some f \<Rightarrow> Some True
                | None \<Rightarrow> (case toggle d of Some f \<Rightarrow> Some False | None \<Rightarrow> isToggleX s))))"
proof (cases "p_all data")
  case None
  then show ?thesis by (simp add: pollResponse_def Let_def)
next
  case (Some a)
  obtain s1 e1 where d: "(case all_digest a of Some d \<Rightarrow> applyDigest cfg d s | None \<Rightarrow> (s, [])) = (s1, e1)"
    by (cases "case all_digest a of Some d \<Rightarrow> applyDigest cfg d s | None \<Rightarrow> (s, [])")
  have s1: "isToggleX s1 =
      (case all_digest a of
         None \<Rightarrow> isToggleX s
       | Some d \<Rightarrow>
           (case first_elem (togglex d) of
              Some f \<Rightarrow> Some True
            | None \<Rightarrow> (case toggle d of Some f \<Rightarrow> Some False | None \<Rightarrow> isToggleX s)))"
  proof (cases "all_digest a")
    case None
    with d show ?thesis by simp
  next
    case (Some dg)
    with d have "s1 = fst (applyDigest cfg dg s)" by simp
    with Some show ?thesis by (simp add: isToggleX_applyDigest)
  qed
  show ?thesis
  proof (cases "all_system a")
    case None
    with Some d s1 show ?thesis by (simp add: pollResponse_def Let_def)
  next
    case (Some sys)
    obtain s2 n1 where a: "applySystem firstRun sys s1 = (s2, n1)"
      by (cases "applySystem firstRun sys s1")
    obtain s3 n2 where b: "applyOnline (sys_online sys) s2 = (s3, n2)"
      by (cases "applyOnline (sys_online sys) s2")
    have "isToggleX s3 = isToggleX s1"
      using isToggleX_applySystem [of firstRun sys s1] isToggleX_applyOnline [of "sys_online sys" s2]
      by (simp add: a b)
    with \<open>p_all data = Some a\<close> Some d s1 a b show ?thesis
      by (simp add: pollResponse_def Let_def)
  qed
qed

lemma isToggleX_pollFailed: "isToggleX (fst (pollFailed cfg firstRun err s)) = isToggleX s"
  by (simp add: fst_pollFailed)

lemma isToggleX_requestUpdate:
  "isToggleX (fst (requestUpdate cfg firstRun res s)) =
     (if updateInProgress s then isToggleX s
      else case res of
        Rejected err \<Rightarrow> isToggleX s
      | Abandoned \<Rightarrow> isToggleX s
      | Resolved data \<Rightarrow>
          isToggleX (fst (snd (pollResponse cfg firstRun data (s\<lparr>updateInProgress := True\<rparr>)))))"
proof (cases "updateInProgress s")
  case True
  then show ?thesis by (simp add: requestUpdate_busy)
next
  case False
  show ?thesis
  proof (cases res)
    case (Rejected err)
    with False show ?thesis by (simp add: requestUpdate_Rejected isToggleX_pollFailed)
  next
    case Abandoned
    with False show ?thesis
      by (simp add: requestUpdate_Abandoned requestUpdate_Rejected isToggleX_pollFailed)
  next
    case (Resolved data)
    obtain r s1 e1 where p: "pollResponse cfg firstRun data (s\<lparr>updateInProgress := True\<rparr>) = (r, s1, e1)"
      by (cases "pollResponse cfg firstRun data (s\<lparr>updateInProgress := True\<rparr>)")
    show ?thesis
    proof (cases r)
      case (Inl err)
      with False Resolved p show ?thesis
        using isToggleX_pollFailed [of cfg firstRun err s1]
        by (auto simp add: requestUpdate_def Let_def split: prod.split)
    next
      case (Inr u)
      with False Resolved p show ?thesis
        by (simp add: requestUpdate_def Let_def)
    qed
  qed
qed

subsection \<open>Polls\<close>

text \<open>
  Claim C4, as the code has it. Every full-state poll whose response arrives derives the
  protocol variant again from that response, before anything else is read from it: a digest
  whose \<^verbatim>\<open>togglex\<close> array has a first element sets it to Extended, a digest with \<^verbatim>\<open>toggle\<close>
  and no such element sets it to Legacy, and a response without \<^verbatim>\<open>all\<close>, without a digest
  or with neither key leaves it as it was. This is so whether the handler then completes or
  throws at line 218 for want of \<^verbatim>\<open>all.system\<close>, and also when the response arrives for a
  task that the queue's timeout had abandoned. A poll that is skipped, whose send is
  rejected or whose task is abandoned leaves the variant as it was at that moment. So a
  resolved variant never becomes unknown again, and it stays the same as long as the
  responses keep their shape.
\<close>
theorem requestUpdate_variant:
  "isToggleX (fst (requestUpdate cfg firstRun res s)) =
     (if updateInProgress s then isToggleX s
      else case res of
        Rejected err \<Rightarrow> isToggleX s
      | Abandoned \<Rightarrow> isToggleX s
      | Resolved data \<Rightarrow>
          (case p_all data of
             None \<Rightarrow> isToggleX s
           | Some a \<Rightarrow>
               (case all_digest a of
                  None \<Rightarrow> isToggleX s
                | Some d \<Rightarrow>
                    (case first_elem (togglex d) of
                       Some f \<Rightarrow> Some True
                     | None \<Rightarrow>
                         (case toggle d of Some f \<Rightarrow> Some False | None \<Rightarrow> isToggleX s)))))
   \<and> isToggleX (fst (pollResumed cfg firstRun late t)) =
     (case p_all late of
        None \<Rightarrow> isToggleX t
      | Some a \<Rightarrow>
          (case all_digest a of
             None \<Rightarrow> isToggleX t
           | Some d \<Rightarrow>
               (case first_elem (togglex d) of
                  Some f \<Rightarrow> Some True
                | None \<Rightarrow>
                    (case toggle d of Some f \<Rightarrow> Some False | None \<Rightarrow> isToggleX t))))
   \<and> (isToggleX s \<noteq> None \<longrightarrow> isToggleX (fst (requestUpdate cfg firstRun res s)) \<noteq> None)
   \<and> (isToggleX t \<noteq> None \<longrightarrow> isToggleX (fst (pollResumed cfg firstRun late t)) \<noteq> None)"
proof -
  have eq: "isToggleX (fst (requestUpdate cfg firstRun res s)) =
     (if updateInProgress s then isToggleX s
      else case res of
        Rejected err \<Rightarrow> isToggleX s
      | Abandoned \<Rightarrow> isToggleX s
      | Resolved data \<Rightarrow>
          (case p_all data of
             None \<Rightarrow> isToggleX s
           | Some a \<Rightarrow>
               (case all_digest a of
                  None \<Rightarrow> isToggleX s
                | Some d \<Rightarrow>
                    (case first_elem (togglex d) of
                       Some f \<Rightarrow> Some True
                     | None \<Rightarrow>
                         (case toggle d of Some f \<Rightarrow> Some False | None \<Rightarrow> isToggleX s)))))"
    by (simp add: isToggleX_requestUpdate isToggleX_pollResponse
        split: outcome.split option.split)
  have late: "isToggleX (fst (pollResumed cfg firstRun late t)) =
     (case p_all late of
        None \<Rightarrow> isToggleX t
      | Some a \<Rightarrow>
          (case all_digest a of
             None \<Rightarrow> isToggleX t
           | Some d \<Rightarrow>
               (case first_elem (togglex d) of
                  Some f \<Rightarrow> Some True
                | None \<Rightarrow>
                    (case toggle d of Some f \<Rightarrow> Some False | None \<Rightarrow> isToggleX t))))"
    by (simp add: pollResumed_def isToggleX_pollResponse)
  have "isToggleX s \<noteq> None \<Longrightarrow> isToggleX (fst (requestUpdate cfg firstRun res s)) \<noteq> None"
    unfolding eq by (auto split: outcome.split option.split)
  moreover have "isToggleX t \<noteq> None \<Longrightarrow> isToggleX (fst (pollResumed cfg firstRun late t)) \<noteq> None"
    unfolding late by (auto split: option.split)
  ultimately show ?thesis using eq late by blast
qed

text \<open>
  A first poll resolves the variant. A later poll of the ToggleX shape makes a Legacy
  variant Extended although its handler throws for want of \<^verbatim>\<open>all.system\<close>. A rejected send
  and an abandoned task keep the variant; the late response of an abandoned task sets it.
\<close>
theorem requestUpdate_variant_witness:
  "isToggleX (fst (requestUpdate cfg_five True (Resolved resp_togglex) dev_off)) = Some True
   \<and> isToggleX
        (fst (requestUpdate cfg_five False (Resolved resp_no_system)
           (dev_load\<lparr>isToggleX := Some False\<rparr>))) = Some True
   \<and> isToggleX (fst (requestUpdate cfg_five False (Rejected TimeoutError) dev_load)) = Some True
   \<and> isToggleX (fst (requestUpdate cfg_five False Abandoned dev_load)) = Some True
   \<and> isToggleX (fst (pollResumed cfg_five False resp_toggle dev_load)) = Some False"
  using requestUpdate_variant [of cfg_five True "Resolved resp_togglex" dev_off resp_toggle dev_load]
    requestUpdate_variant [of cfg_five False "Resolved resp_no_system"
      "dev_load\<lparr>isToggleX := Some False\<rparr>" resp_toggle dev_load]
    requestUpdate_variant [of cfg_five False "Rejected TimeoutError" dev_load resp_toggle dev_load]
    requestUpdate_variant [of cfg_five False Abandoned dev_load resp_toggle dev_load]
  by (simp add: resp_togglex_def resp_toggle_def resp_no_system_def all_no_system_def
      dev_off_def dev_load_def)

text \<open>
  Claim C4 as the specification words it fails: the first poll resolves Extended, and a
  second poll whose digest has the Toggle shape changes the variant to Legacy.
\<close>
theorem requestUpdate_variant_counterexample:
  "isToggleX (fst (requestUpdate cfg_five True (Resolved resp_togglex) dev_off)) = Some True
   \<and> isToggleX
        (fst (requestUpdate cfg_five False (Resolved resp_toggle)
           (queue_idle (fst (requestUpdate cfg_five True (Resolved resp_togglex) dev_off)))))
      = Some False"
  by (simp add: isToggleX_requestUpdate isToggleX_pollResponse queue_idle_def resp_togglex_def
      resp_toggle_def dev_off_def)

lemma requestUpdate_failed:
  assumes "\<not> updateInProgress s"
    and "res = Rejected err
      \<or> (res = Abandoned \<and> err = TimeoutError)
      \<or> (\<exists>d a. res = Resolved d \<and> p_all d = Some a \<and> all_system a = None \<and> err = TypeError)"
  shows "isOnline (fst (requestUpdate cfg firstRun res s)) =
      (if (isOnline s \<or> firstRun)
          \<and> (str_includes (eText cfg err) ''EHOSTUNREACH''
             \<or> str_includes (eText cfg err) ''timed out'')
       then False else isOnline s)"
    and "accessory_updates (snd (requestUpdate cfg firstRun res s)) =
      (if (isOnline s \<or> firstRun)
          \<and> (str_includes (eText cfg err) ''EHOSTUNREACH''
             \<or> str_includes (eText cfg err) ''timed out'')
       then 1 else 0)"
    and "updateInProgress (fst (requestUpdate cfg firstRun res s))"
proof -
  let ?s0 = "s\<lparr>updateInProgress := True\<rparr>"
  from assms(2) consider
    (rej) "res = Rejected err"
    | (abandoned) "res = Abandoned" "err = TimeoutError"
    | (thrown) d a where "res = Resolved d" "p_all d = Some a" "all_system a = None"
        "err = TypeError"
    by blast
  then have "\<exists>s1 e1. isOnline s1 = isOnline s \<and> updateInProgress s1 \<and> accessory_updates e1 = 0
      \<and> requestUpdate cfg firstRun res s =
          (fst (pollFailed cfg firstRun err s1), e1 @ snd (pollFailed cfg firstRun err s1))"
  proof cases
    case rej
    have "requestUpdate cfg firstRun res s =
        (fst (pollFailed cfg firstRun err ?s0),
         [SendUpdate ''Appliance.System.All'' NoPayload] @ snd (pollFailed cfg firstRun err ?s0))"
      using rej assms(1) by (simp add: requestUpdate_Rejected)
    moreover have "isOnline ?s0 = isOnline s \<and> updateInProgress ?s0
        \<and> accessory_updates [SendUpdate ''Appliance.System.All'' NoPayload] = 0"
      by simp
    ultimately show ?thesis by blast
  next
    case abandoned
    have "requestUpdate cfg firstRun res s =
        (fst (pollFailed cfg firstRun err ?s0),
         [SendUpdate ''Appliance.System.All'' NoPayload] @ snd (pollFailed cfg firstRun err ?s0))"
      using abandoned assms(1) by (simp add: requestUpdate_Abandoned requestUpdate_Rejected)
    moreover have "isOnline ?s0 = isOnline s \<and> updateInProgress ?s0
        \<and> accessory_updates [SendUpdate ''Appliance.System.All'' NoPayload] = 0"
      by simp
    ultimately show ?thesis by blast
  next
    case thrown
    let ?dig = "case all_digest a of Some dg \<Rightarrow> applyDigest cfg dg ?s0 | None \<Rightarrow> (?s0, [])"
    let ?e = "SendUpdate ''Appliance.System.All'' NoPayload
        # (if enableDebugLogging cfg then [Log IncPoll] else []) @ snd ?dig"
    have "requestUpdate cfg firstRun res s =
        (fst (pollFailed cfg firstRun err (fst ?dig)),
         ?e @ snd (pollFailed cfg firstRun err (fst ?dig)))"
      using thrown requestUpdate_no_system [OF assms(1) thrown(2,3), of cfg firstRun]
      by (simp add: Let_def split: prod.split)
    moreover have "isOnline (fst ?dig) = isOnline s \<and> updateInProgress (fst ?dig)"
      by (simp add: frame_applyDigest split: option.split)
    moreover have "accessory_updates ?e = 0"
      by (simp add: accessory_updates_append accessory_updates_applyDigest split: option.split)
    ultimately show ?thesis by blast
  qed
  then obtain s1 e1 where s1: "isOnline s1 = isOnline s" "updateInProgress s1"
    and e1: "accessory_updates e1 = 0"
    and r: "requestUpdate cfg firstRun res s =
          (fst (pollFailed cfg firstRun err s1), e1 @ snd (pollFailed cfg firstRun err s1))"
    by blast
  show "isOnline (fst (requestUpdate cfg firstRun res s)) =
      (if (isOnline s \<or> firstRun)
          \<and> (str_includes (eText cfg err) ''EHOSTUNREACH''
             \<or> str_includes (eText cfg err) ''timed out'')
       then False else isOnline s)"
    by (simp add: r fst_pollFailed s1)
  show "accessory_updates (snd (requestUpdate cfg firstRun res s)) =
      (if (isOnline s \<or> firstRun)
          \<and> (str_includes (eText cfg err) ''EHOSTUNREACH''
             \<or> str_includes (eText cfg err) ''timed out'')
       then 1 else 0)"
    by (simp add: r accessory_updates_append e1 accessory_updates_pollFailed s1)
  show "updateInProgress (fst (requestUpdate cfg firstRun res s))"
    by (simp add: r fst_pollFailed s1)
qed

text \<open>
  Claim C6. A full-state poll that fails, because the send is rejected (with error \<open>err\<close>),
  or the queue's timeout abandons the task (a \<open>TimeoutError\<close>), or the handler throws at
  line 218 (a \<open>TypeError\<close>), sets the online flag to false and updates the
  accessory once exactly when the error text contains \<^verbatim>\<open>EHOSTUNREACH\<close> or \<^verbatim>\<open>timed out\<close> and
  the device was online or this is the first run; otherwise the flag is unchanged and the
  accessory is not updated. When the device was online and the text contains \<^verbatim>\<open>timed out\<close>,
  the failure gives one update, and the same failure at the next poll of the timer, once the
  queue is idle again, gives none.
\<close>
theorem requestUpdate_failure_offline:
  assumes "\<not> updateInProgress s"
    and "res = Rejected err
      \<or> (res = Abandoned \<and> err = TimeoutError)
      \<or> (\<exists>d a. res = Resolved d \<and> p_all d = Some a \<and> all_system a = None \<and> err = TypeError)"
  shows "isOnline (fst (requestUpdate cfg firstRun res s)) =
      (if (isOnline s \<or> firstRun)
          \<and> (str_includes (eText cfg err) ''EHOSTUNREACH''
             \<or> str_includes (eText cfg err) ''timed out'')
       then False else isOnline s)
    \<and> accessory_updates (snd (requestUpdate cfg firstRun res s)) =
      (if (isOnline s \<or> firstRun)
          \<and> (str_includes (eText cfg err) ''EHOSTUNREACH''
             \<or> str_includes (eText cfg err) ''timed out'')
       then 1 else 0)
    \<and> (isOnline s \<and> str_includes (eText cfg err) ''timed out'' \<longrightarrow>
         accessory_updates (snd (requestUpdate cfg firstRun res s)) = 1
         \<and> \<not> isOnline (fst (requestUpdate cfg firstRun res s))
         \<and> accessory_updates
             (snd (requestUpdate cfg False res (queue_idle (fst (requestUpdate cfg firstRun res s)))))
           = 0
         \<and> \<not> isOnline
             (fst (requestUpdate cfg False res (queue_idle (fst (requestUpdate cfg firstRun res s))))))"
proof -
  let ?s1 = "queue_idle (fst (requestUpdate cfg firstRun res s))"
  note first = requestUpdate_failed [OF assms, of cfg firstRun]
  have idle: "\<not> updateInProgress ?s1" "isOnline ?s1 = isOnline (fst (requestUpdate cfg firstRun res s))"
    by (simp_all add: queue_idle_def)
  note second = requestUpdate_failed [OF idle(1) assms(2), of cfg False]
  have "isOnline s \<and> str_includes (eText cfg err) ''timed out'' \<longrightarrow>
         accessory_updates (snd (requestUpdate cfg firstRun res s)) = 1
         \<and> \<not> isOnline (fst (requestUpdate cfg firstRun res s))
         \<and> accessory_updates (snd (requestUpdate cfg False res ?s1)) = 0
         \<and> \<not> isOnline (fst (requestUpdate cfg False res ?s1))"
    using first(1,2) second(1,2) idle(2) by simp
  with first(1,2) show ?thesis by blast
qed

text \<open>
  Two timeouts in a row on a device that was online, the same with the task abandoned by
  the queue, and a failure whose text has no connectivity signature.
\<close>
theorem requestUpdate_failure_offline_witness:
  "isOnline dev_on
   \<and> \<not> isOnline (fst (requestUpdate cfg_five False (Rejected TimeoutError) dev_on))
   \<and> accessory_updates (snd (requestUpdate cfg_five False (Rejected TimeoutError) dev_on)) = 1
   \<and> accessory_updates
        (snd (requestUpdate cfg_five False (Rejected TimeoutError)
           (queue_idle (fst (requestUpdate cfg_five False (Rejected TimeoutError) dev_on)))))
      = 0
   \<and> \<not> isOnline (fst (requestUpdate cfg_five False Abandoned dev_on))
   \<and> accessory_updates (snd (requestUpdate cfg_five False Abandoned dev_on)) = 1
   \<and> accessory_updates
        (snd (requestUpdate cfg_five False Abandoned
           (queue_idle (fst (requestUpdate cfg_five False Abandoned dev_on)))))
      = 0
   \<and> isOnline (fst (requestUpdate cfg_five False (Rejected (OtherError ''ECONNRESET'')) dev_on))
   \<and> accessory_updates
        (snd (requestUpdate cfg_five False (Rejected (OtherError ''ECONNRESET'')) dev_on)) = 0"
proof -
  have a: "\<not> updateInProgress dev_on" by (simp add: dev_on_def)
  have b: "Rejected TimeoutError = Rejected TimeoutError
      \<or> (Rejected TimeoutError = Abandoned \<and> TimeoutError = TimeoutError)
      \<or> (\<exists>d a. Rejected TimeoutError = Resolved d \<and> p_all d = Some a \<and> all_system a = None
            \<and> TimeoutError = TypeError)"
    by simp
  have c: "Rejected (OtherError ''ECONNRESET'') = Rejected (OtherError ''ECONNRESET'')
      \<or> (Rejected (OtherError ''ECONNRESET'') = Abandoned
            \<and> OtherError ''ECONNRESET'' = TimeoutError)
      \<or> (\<exists>d a. Rejected (OtherError ''ECONNRESET'') = Resolved d \<and> p_all d = Some a
            \<and> all_system a = None \<and> OtherError ''ECONNRESET'' = TypeError)"
    by simp
  have d: "(Abandoned :: poll_payload outcome) = Rejected TimeoutError
      \<or> ((Abandoned :: poll_payload outcome) = Abandoned \<and> TimeoutError = TimeoutError)
      \<or> (\<exists>d a. Abandoned = Resolved d \<and> p_all d = Some a \<and> all_system a = None
            \<and> TimeoutError = TypeError)"
    by simp
  have t: "str_includes (eText cfg_five TimeoutError) ''timed out''"
    by (simp add: eText_def cfg_five_def)
  have u: "\<not> str_includes (eText cfg_five (OtherError ''ECONNRESET'')) ''timed out''"
    "\<not> str_includes (eText cfg_five (OtherError ''ECONNRESET'')) ''EHOSTUNREACH''"
    by (simp_all add: eText_def)
  have o: "isOnline dev_on" by (simp add: dev_on_def)
  show ?thesis
    using requestUpdate_failure_offline [OF a b, of cfg_five False]
      requestUpdate_failure_offline [OF a c, of cfg_five False]
      requestUpdate_failure_offline [OF a d, of cfg_five False] t u o
    by simp
qed

text \<open>
  Claim C9, as the code has it. For a response with \<^verbatim>\<open>all\<close> and without \<^verbatim>\<open>all.system\<close>
  the handler throws at \<^verbatim>\<open>data.all.system.online\<close>, after the digest has been handled: the
  poll is the digest stage followed by the catch block. The on/off cache and the protocol
  variant are what the digest makes them, as in a successful poll, and are unchanged when
  there is no digest; the accessory update of the success path does not happen; the online
  flag becomes false, with one accessory update, exactly when the text of the TypeError
  contains a connectivity signature and the device was online or this is the first run.
\<close>
theorem requestUpdate_missing_system:
  assumes "\<not> updateInProgress s" and "p_all data = Some a" and "all_system a = None"
  shows "requestUpdate cfg firstRun (Resolved data) s =
      (let s0 = s\<lparr>updateInProgress := True\<rparr>;
           (s1, e1) = (case all_digest a of Some d \<Rightarrow> applyDigest cfg d s0 | None \<Rightarrow> (s0, []));
           (s2, e2) = pollFailed cfg firstRun TypeError s1
       in (s2, SendUpdate ''Appliance.System.All'' NoPayload
               # (if enableDebugLogging cfg then [Log IncPoll] else []) @ e1 @ e2))
    \<and> cacheState (fst (requestUpdate cfg firstRun (Resolved data) s)) =
      (case all_digest a of
         None \<Rightarrow> cacheState s
       | Some d \<Rightarrow> cacheState (fst (applyDigest cfg d s)))
    \<and> isToggleX (fst (requestUpdate cfg firstRun (Resolved data) s)) =
      (case all_digest a of
         None \<Rightarrow> isToggleX s
       | Some d \<Rightarrow> isToggleX (fst (applyDigest cfg d s)))
    \<and> isOnline (fst (requestUpdate cfg firstRun (Resolved data) s)) =
      (if (isOnline s \<or> firstRun)
          \<and> (str_includes (typeError_text cfg) ''EHOSTUNREACH''
             \<or> str_includes (typeError_text cfg) ''timed out'')
       then False else isOnline s)
    \<and> accessory_updates (snd (requestUpdate cfg firstRun (Resolved data) s)) =
      (if (isOnline s \<or> firstRun)
          \<and> (str_includes (typeError_text cfg) ''EHOSTUNREACH''
             \<or> str_includes (typeError_text cfg) ''timed out'')
       then 1 else 0)"
proof -
  let ?s0 = "s\<lparr>updateInProgress := True\<rparr>"
  let ?r = "requestUpdate cfg firstRun (Resolved data) s"
  note eq = requestUpdate_no_system [OF assms, of cfg firstRun]
  have f: "Resolved data = Rejected TypeError
      \<or> (Resolved data = Abandoned \<and> TypeError = TimeoutError)
      \<or> (\<exists>d a. Resolved data = Resolved d \<and> p_all d = Some a \<and> all_system a = None
            \<and> TypeError = TypeError)"
    using assms(2,3) by blast
  note off = requestUpdate_failed [OF assms(1) f, of cfg firstRun]
  have t: "eText cfg TypeError = typeError_text cfg" by (simp add: eText_def)
  have st: "fst ?r =
      fst (pollFailed cfg firstRun TypeError
        (fst (case all_digest a of Some d \<Rightarrow> applyDigest cfg d ?s0 | None \<Rightarrow> (?s0, []))))"
    by (simp add: eq Let_def split: prod.split)
  have c: "cacheState (fst ?r) =
      (case all_digest a of None \<Rightarrow> cacheState s | Some d \<Rightarrow> cacheState (fst (applyDigest cfg d s)))"
    by (simp add: st fst_pollFailed cacheState_applyDigest split: option.split)
  have v: "isToggleX (fst ?r) =
      (case all_digest a of None \<Rightarrow> isToggleX s | Some d \<Rightarrow> isToggleX (fst (applyDigest cfg d s)))"
    by (simp add: st fst_pollFailed isToggleX_applyDigest split: option.split)
  show ?thesis
    using eq c v off(1,2) unfolding t by (intro conjI) assumption+
qed

text \<open>
  A response with a ToggleX digest that reports the switch on, and no \<^verbatim>\<open>system\<close>: state and
  variant change, the online flag does not.
\<close>
theorem requestUpdate_missing_system_witness:
  "cacheState dev_off = False \<and> isToggleX dev_off = None
   \<and> cacheState (fst (requestUpdate cfg_five False (Resolved resp_no_system) dev_off)) = True
   \<and> isToggleX (fst (requestUpdate cfg_five False (Resolved resp_no_system) dev_off)) = Some True
   \<and> isOnline (fst (requestUpdate cfg_five False (Resolved resp_no_system) dev_off))
   \<and> accessory_updates (snd (requestUpdate cfg_five False (Resolved resp_no_system) dev_off)) = 0"
proof -
  have a: "\<not> updateInProgress dev_off" by (simp add: dev_off_def)
  have b: "p_all resp_no_system = Some all_no_system"
    by (simp add: resp_no_system_def)
  have c: "all_system all_no_system = None"
    by (simp add: all_no_system_def)
  have g: "all_digest all_no_system = Some \<lparr>togglex = Some [frag_on], toggle = None\<rparr>"
    by (simp add: all_no_system_def)
  have t: "\<not> str_includes (typeError_text cfg_five) ''EHOSTUNREACH''"
    "\<not> str_includes (typeError_text cfg_five) ''timed out''"
    by (simp_all add: cfg_five_def)
  have d: "cacheState (fst (applyDigest cfg_five \<lparr>togglex = Some [frag_on], toggle = None\<rparr> dev_off))"
    "isToggleX (fst (applyDigest cfg_five \<lparr>togglex = Some [frag_on], toggle = None\<rparr> dev_off))
      = Some True"
    by (simp_all add: cacheState_applyDigest isToggleX_applyDigest frag_on_def)
  have o: "isOnline dev_off" "cacheState dev_off = False" "isToggleX dev_off = None"
    by (simp_all add: dev_off_def)
  show ?thesis
    using requestUpdate_missing_system [OF a b c, of cfg_five False, THEN conjunct2] t d o g
    by simp
qed

text \<open>
  Claim C9 as worded fails on that response: the poll ends in the catch block, yet the on/off
  cache and the protocol variant have changed.
\<close>
theorem requestUpdate_missing_system_counterexample:
  "\<not> updateInProgress dev_off
   \<and> p_all resp_no_system = Some all_no_system
   \<and> all_system all_no_system = None
   \<and> cacheState (fst (requestUpdate cfg_five False (Resolved resp_no_system) dev_off))
      \<noteq> cacheState dev_off
   \<and> isToggleX (fst (requestUpdate cfg_five False (Resolved resp_no_system) dev_off))
      \<noteq> isToggleX dev_off"
proof -
  have a: "\<not> updateInProgress dev_off" by (simp add: dev_off_def)
  have b: "p_all resp_no_system = Some all_no_system"
    by (simp add: resp_no_system_def)
  have c: "all_system all_no_system = None"
    by (simp add: all_no_system_def)
  have st: "fst (requestUpdate cfg_five False (Resolved resp_no_system) dev_off) =
      fst (pollFailed cfg_five False TypeError
        (fst (applyDigest cfg_five \<lparr>togglex = Some [frag_on], toggle = None\<rparr>
           (dev_off\<lparr>updateInProgress := True\<rparr>))))"
    using requestUpdate_no_system [OF a b c, of cfg_five False]
    by (simp add: Let_def case_prod_beta all_no_system_def)
  have "cacheState (fst (requestUpdate cfg_five False (Resolved resp_no_system) dev_off))"
    and "isToggleX (fst (requestUpdate cfg_five False (Resolved resp_no_system) dev_off))
      = Some True"
    by (simp_all add: st fst_pollFailed cacheState_applyDigest isToggleX_applyDigest frag_on_def)
  then show ?thesis
    using a b c by (simp add: dev_off_def)
qed

subsection \<open>Commands\<close>

text \<open>
  Claim C3, as the code has it. While the variant is unknown (\<^verbatim>\<open>isToggleX\<close> is
  \<^verbatim>\<open>undefined\<close>), a command for a value other than the cached one is sent with Legacy
  semantics: namespace \<^verbatim>\<open>Appliance.Control.Toggle\<close> and a \<^verbatim>\<open>toggle\<close> payload with
  \<^verbatim>\<open>onoff\<close> 0 or 1 and no channel.
\<close>
theorem internalStateUpdate_unknown_variant:
  assumes "isToggleX s = None" and "value \<noteq> cacheState s"
  shows "sends (snd (snd (internalStateUpdate cfg value res s))) =
      [(''Appliance.Control.Toggle'', Toggle (if value then 1 else 0))]"
  using assms by (cases res) (simp_all add: internalStateUpdate_def Let_def)

text \<open>Switching on a handler that has not polled yet.\<close>
theorem internalStateUpdate_unknown_variant_witness:
  "sends (snd (snd (internalStateUpdate cfg_five True (Resolved ()) dev_off))) =
      [(''Appliance.Control.Toggle'', Toggle 1)]"
proof -
  have "isToggleX dev_off = None" and "True \<noteq> cacheState dev_off"
    by (simp_all add: dev_off_def)
  then show ?thesis
    using internalStateUpdate_unknown_variant [of dev_off True cfg_five "Resolved ()"] by simp
qed

text \<open>Claim C3 as worded fails there: the command sent is not the ToggleX one.\<close>
theorem internalStateUpdate_unknown_variant_counterexample:
  "isToggleX dev_off = None
   \<and> sends (snd (snd (internalStateUpdate cfg_five True (Resolved ()) dev_off)))
      \<noteq> [(''Appliance.Control.ToggleX'', ToggleX 1 0)]"
  by (simp add: internalStateUpdate_def Let_def dev_off_def)

text \<open>
  Claim C8. A call whose value equals the cached on/off state returns normally, leaves the
  handler as it was and has no effect at all: no send, no history entry, no characteristic
  written.
\<close>
theorem internalStateUpdate_same_value:
  assumes "value = cacheState s"
  shows "internalStateUpdate cfg value res s = (Inr (), s, [])
    \<and> sends (snd (snd (internalStateUpdate cfg value res s))) = []
    \<and> entries (snd (snd (internalStateUpdate cfg value res s))) = []
    \<and> writes c (snd (snd (internalStateUpdate cfg value res s))) = []"
  using assms by (simp add: internalStateUpdate_def)

text \<open>Switching on a switch that is on, whatever the transport would have answered.\<close>
theorem internalStateUpdate_same_value_witness:
  "internalStateUpdate cfg_five True (Rejected TimeoutError) dev_on = (Inr (), dev_on, [])"
proof -
  have "True = cacheState dev_on" by (simp add: dev_on_def)
  then show ?thesis
    using internalStateUpdate_same_value [of True dev_on cfg_five "Rejected TimeoutError" On]
    by simp
qed

text \<open>
  Claim C7, as the code has it. When the send of a command is rejected, or the queue's
  timeout abandons the command task, the method throws the HAP error -70402; at that moment
  the cached state is unchanged, one send has been made and none is repeated, no history
  entry and no characteristic write has been made, and one timer of 2000 ms has been
  started. When the timer fires it writes to the On characteristic the cached state of
  that moment, which is the state cached before the command when nothing has changed the
  cache in between. An abandoned task is not cancelled: when its send resolves later, the
  rest of the task caches the commanded value and adds its history entry, and a timer that
  fires after that writes the commanded value.
\<close>
theorem internalStateUpdate_failure:
  assumes "value \<noteq> cacheState s" and "res = Rejected err \<or> res = Abandoned"
  shows "fst (internalStateUpdate cfg value res s) = Inl (HapStatusError (- 70402))
    \<and> cacheState (fst (snd (internalStateUpdate cfg value res s))) = cacheState s
    \<and> length (sends (snd (snd (internalStateUpdate cfg value res s)))) = 1
    \<and> entries (snd (snd (internalStateUpdate cfg value res s))) = []
    \<and> writes On (snd (snd (internalStateUpdate cfg value res s))) = []
    \<and> timers (snd (snd (internalStateUpdate cfg value res s))) = [2000]
    \<and> snd (revertTimer t) = [UpdateCharacteristic On (BoolVal (cacheState t))]
    \<and> snd (revertTimer (fst (snd (internalStateUpdate cfg value res s))))
        = [UpdateCharacteristic On (BoolVal (cacheState s))]
    \<and> cacheState (fst (commandResumed cfg value t)) = value
    \<and> entries (snd (commandResumed cfg value t)) = [if value then 1 else 0]
    \<and> snd (revertTimer (fst (commandResumed cfg value t)))
        = [UpdateCharacteristic On (BoolVal value)]"
  using assms
  by (auto simp add: internalStateUpdate_def Let_def revertTimer_def commandResumed_def
      entries_append)

text \<open>
  A command to switch on whose send is rejected, and one whose task is abandoned, the
  timer firing with nothing in between; and the late end of the abandoned task.
\<close>
theorem internalStateUpdate_failure_witness:
  "fst (internalStateUpdate cfg_five True (Rejected TimeoutError) dev_off)
      = Inl (HapStatusError (- 70402))
   \<and> cacheState (fst (snd (internalStateUpdate cfg_five True (Rejected TimeoutError) dev_off)))
      = False
   \<and> timers (snd (snd (internalStateUpdate cfg_five True (Rejected TimeoutError) dev_off)))
      = [2000]
   \<and> snd (revertTimer (fst (snd (internalStateUpdate cfg_five True (Rejected TimeoutError) dev_off))))
      = [UpdateCharacteristic On (BoolVal False)]
   \<and> fst (internalStateUpdate cfg_five True Abandoned dev_off) = Inl (HapStatusError (- 70402))
   \<and> cacheState (fst (snd (internalStateUpdate cfg_five True Abandoned dev_off))) = False
   \<and> snd (revertTimer (fst (snd (internalStateUpdate cfg_five True Abandoned dev_off))))
      = [UpdateCharacteristic On (BoolVal False)]
   \<and> cacheState (fst (commandResumed cfg_five True dev_off)) = True"
proof -
  have a: "True \<noteq> cacheState dev_off" and b: "cacheState dev_off = False"
    by (simp_all add: dev_off_def)
  have c: "(Rejected TimeoutError :: unit outcome) = Rejected TimeoutError
      \<or> (Rejected TimeoutError :: unit outcome) = Abandoned"
    and d: "(Abandoned :: unit outcome) = Rejected TimeoutError
      \<or> (Abandoned :: unit outcome) = Abandoned"
    by simp_all
  show ?thesis
    using internalStateUpdate_failure [OF a c, of cfg_five dev_off]
      internalStateUpdate_failure [OF a d, of cfg_five dev_off] b
    by simp
qed

text \<open>
  Claim C7 as worded fails in two ways. The command to switch on is abandoned by the
  queue's timeout and its send resolves during the delay: the rest of the task caches true,
  so the cache does not stay as it was, and the timer writes true, not the false that was
  cached before the command. Or the send is rejected and a pushed update reports the switch
  on during the delay: the timer writes true again.
\<close>
theorem internalStateUpdate_failure_counterexample:
  "cacheState dev_off = False
   \<and> fst (internalStateUpdate cfg_five True Abandoned dev_off) = Inl (HapStatusError (- 70402))
   \<and> cacheState
        (fst (commandResumed cfg_five True
           (fst (snd (internalStateUpdate cfg_five True Abandoned dev_off))))) = True
   \<and> writes On
        (snd (revertTimer
           (fst (commandResumed cfg_five True
              (fst (snd (internalStateUpdate cfg_five True Abandoned dev_off)))))))
      = [BoolVal True]
   \<and> fst (internalStateUpdate cfg_five True (Rejected TimeoutError) dev_off)
      = Inl (HapStatusError (- 70402))
   \<and> writes On
        (snd (revertTimer
           (fst (receiveUpdate cfg_five (Some \<lparr>togglex = Some [frag_on], toggle = None\<rparr>)
              (fst (snd (internalStateUpdate cfg_five True (Rejected TimeoutError) dev_off)))))))
      = [BoolVal True]"
  by (simp add: internalStateUpdate_def Let_def revertTimer_def receiveUpdate_def
      commandResumed_def case_prod_beta cacheState_applyUpdate frag_on_def dev_off_def)

end
